theory Spec2Isabelle
  imports Main "HOL-Library.Word"
begin

section \<open>Machine integers and decimal text\<close>

text \<open>
  Go's \<open>int64\<close> is a 64-bit word: \<open>+\<close> wraps around, and the signed order is
  \<open>\<le>s\<close> / \<open><s\<close> (comparison of \<open>sint\<close>). \<open>uint64\<close> accumulators of the
  decimal parser are natural numbers with the wrap-around written out.
\<close>

type_synonym int64 = "64 word"

datatype NumError = ErrSyntax | ErrRange

definition maxUint64 :: nat where
  "maxUint64 = 2 ^ 64 - 1"

definition digit :: "char \<Rightarrow> nat option" where
  "digit c = (if (48::nat) \<le> of_char c \<and> (of_char c :: nat) \<le> 57
              then Some (of_char c - 48) else None)"

text \<open>
  The loop of \<open>strconv.ParseUint(s, 10, 64)\<close>: a byte that is not a decimal digit is a
  syntax error; \<open>n >= cutoff\<close> (with \<open>cutoff = maxUint64/10 + 1\<close>) and a wrapped
  \<open>n*10 + d\<close> are range errors.
\<close>

fun ParseUint_loop :: "nat \<Rightarrow> string \<Rightarrow> NumError + nat" where
  "ParseUint_loop n [] = Inr n"
| "ParseUint_loop n (c # cs) =
     (case digit c of
        None \<Rightarrow> Inl ErrSyntax
      | Some d \<Rightarrow>
          if n \<ge> maxUint64 div 10 + 1 then Inl ErrRange
          else let n' = n * 10;
                   n1 = (n' + d) mod 2 ^ 64
               in if n1 < n' \<or> n1 > maxUint64 then Inl ErrRange
                  else ParseUint_loop n1 cs)"

definition ParseUint :: "string \<Rightarrow> NumError + nat" where
  "ParseUint s = (if s = [] then Inl ErrSyntax else ParseUint_loop 0 s)"

text \<open>
  \<open>strconv.ParseInt(s, 10, 64)\<close>: an optional leading sign, then \<open>ParseUint\<close>; the
  magnitude must fit the signed range (\<open>cutoff = 1 << 63\<close>). Any error of
  \<open>ParseUint\<close> (syntax, or range with the saturated value) is an error here.
\<close>

definition ParseInt :: "string \<Rightarrow> NumError + int64" where
  "ParseInt s =
     (case s of
        [] \<Rightarrow> Inl ErrSyntax
      | c # cs \<Rightarrow>
          let neg = (c = CHR ''-'');
              s' = (if c = CHR ''+'' \<or> c = CHR ''-'' then cs else s)
          in (case ParseUint s' of
                Inl err \<Rightarrow> Inl err
              | Inr un \<Rightarrow>
                  let cutoff = (2::nat) ^ 63
                  in if \<not> neg \<and> un \<ge> cutoff then Inl ErrRange
                     else if neg \<and> un > cutoff then Inl ErrRange
                     else let n = (word_of_nat un :: int64)
                          in Inr (if neg then - n else n)))"

text \<open>\<open>strconv.FormatInt(i, 10)\<close>: the decimal digits, after \<open>-\<close> for a negative value.\<close>

definition digits :: string where
  "digits = ''0123456789''"

fun formatBits :: "nat \<Rightarrow> string" where
  "formatBits n =
     (if n < 10 then [digits ! n]
      else formatBits (n div 10) @ [digits ! (n mod 10)])"

declare formatBits.simps [simp del]

definition FormatInt :: "int64 \<Rightarrow> string" where
  "FormatInt i = (if i <s 0 then CHR ''-'' # formatBits (nat (- sint i))
                  else formatBits (nat (sint i)))"

section \<open>Data model\<close>

text \<open>
  The cache entities. Their declarations are not among the sources at hand; the fields
  are the constructor arguments used in \<open>cache_manager.go\<close>, and the two timestamp
  fields read by \<open>isAccessTokenValid\<close> are strings there.
\<close>

record accessTokenCacheItem =
  at_HomeAccountID :: string
  at_Environment :: string
  at_Realm :: string
  at_ClientID :: string
  at_Secret :: string
  at_Scopes :: string
  CachedAt :: string
  ExpiresOnUnixTimestamp :: string
  ExtendedExpiresOnUnixTimestamp :: string

record refreshTokenCacheItem =
  rt_HomeAccountID :: string
  rt_Environment :: string
  rt_ClientID :: string
  rt_Secret :: string
  rt_FamilyID :: string

record idTokenCacheItem =
  idt_HomeAccountID :: string
  idt_Environment :: string
  idt_Realm :: string
  idt_ClientID :: string
  idt_Secret :: string

record Account =
  acc_HomeAccountID :: string
  acc_Environment :: string
  acc_Realm :: string
  acc_LocalAccountID :: string
  acc_AuthorityType :: string
  acc_PreferredUsername :: string

record appMetadata =
  am_FamilyID :: string
  am_ClientID :: string
  am_Environment :: string

record StorageTokenResponse =
  str_AccessToken :: "accessTokenCacheItem option"
  str_RefreshToken :: "refreshTokenCacheItem option"
  str_IDToken :: "idTokenCacheItem option"
  str_Account :: "Account option"

text \<open>The request parameters (\<open>msalbase.AuthParametersInternal\<close>) and the token response.\<close>

record AuthorityInfo =
  Host :: string
  UserRealmURIPrefix :: string
  AuthorityType :: string

record AuthParametersInternal =
  AuthorityInfo :: AuthorityInfo
  HomeaccountID :: string
  ClientID :: string
  Scopes :: "string list"
  Username :: string
  Password :: string

text \<open>
  The ID token claims. \<open>LocalAccountID\<close> holds what the method
  \<open>GetLocalAccountID()\<close> returns for the token.
\<close>

record IDTokenClaims =
  RawToken :: string
  PreferredUsername :: string
  LocalAccountID :: string

text \<open>
  The token response. \<open>ExpiresOn\<close> and \<open>ExtExpiresOn\<close> hold the \<open>Unix()\<close> seconds
  of the two times; \<open>HomeAccountIDFromClientInfo\<close> holds what the method
  \<open>GetHomeAccountIDFromClientInfo()\<close> returns for the response.
\<close>

record TokenResponse =
  AccessToken :: string
  RefreshToken :: string
  IDToken :: IDTokenClaims
  FamilyID :: string
  GrantedScopes :: "string list"
  ExpiresOn :: int64
  ExtExpiresOn :: int64
  HomeAccountIDFromClientInfo :: string

record InstanceDiscoveryMetadata =
  Aliases :: "string list"

datatype CredentialType = CredentialTypeOauth2RefreshToken | CredentialTypeOauth2AccessToken

datatype OperationStatusType = OperationStatusTypeSuccess | OperationStatusTypeFailure

record OperationStatus =
  StatusType :: OperationStatusType

text \<open>
  Errors: \<open>ErrorsNew msg\<close> is the value of \<open>errors.New(msg)\<close> in the cache manager;
  \<open>CollaboratorError\<close> is an error value handed back by the Storage Port or by
  instance discovery.
\<close>

datatype error = ErrorsNew string | CollaboratorError string

section \<open>The Storage Port and the alias resolver\<close>

text \<open>
  \<open>IStorageManager\<close> is an interface: the cache manager only calls it. A port over a
  store of type \<open>'s\<close> is a record of its methods; a read is a function of the store, a
  write or a deletion returns its error (or status) and the store it leaves.
  \<open>map[CredentialType]bool\<close> is a map to \<open>bool\<close>.
\<close>

record 's IStorageManager =
  ReadAccessToken :: "'s \<Rightarrow> string \<Rightarrow> string list \<Rightarrow> string \<Rightarrow> string \<Rightarrow> string list
                        \<Rightarrow> accessTokenCacheItem option"
  ReadRefreshToken :: "'s \<Rightarrow> string \<Rightarrow> string list \<Rightarrow> string \<Rightarrow> string
                        \<Rightarrow> refreshTokenCacheItem option"
  ReadIDToken :: "'s \<Rightarrow> string \<Rightarrow> string list \<Rightarrow> string \<Rightarrow> string \<Rightarrow> idTokenCacheItem option"
  ReadAccount :: "'s \<Rightarrow> string \<Rightarrow> string list \<Rightarrow> string \<Rightarrow> Account option"
  ReadAllAccounts :: "'s \<Rightarrow> Account list"
  ReadAppMetadata :: "'s \<Rightarrow> string list \<Rightarrow> string \<Rightarrow> appMetadata option"
  WriteAccessToken :: "'s \<Rightarrow> accessTokenCacheItem \<Rightarrow> error option \<times> 's"
  WriteRefreshToken :: "'s \<Rightarrow> refreshTokenCacheItem \<Rightarrow> error option \<times> 's"
  WriteIDToken :: "'s \<Rightarrow> idTokenCacheItem \<Rightarrow> error option \<times> 's"
  WriteAccount :: "'s \<Rightarrow> Account \<Rightarrow> error option \<times> 's"
  WriteAppMetadata :: "'s \<Rightarrow> appMetadata \<Rightarrow> error option \<times> 's"
  DeleteCredentials :: "'s \<Rightarrow> string \<Rightarrow> string \<Rightarrow> string \<Rightarrow> string \<Rightarrow> string \<Rightarrow> string \<Rightarrow> string
                        \<Rightarrow> (CredentialType \<rightharpoonup> bool) \<Rightarrow> (error + OperationStatus) \<times> 's"

text \<open>The calls made on the port, in order, with their arguments.\<close>

datatype call =
    ReadAccessTokenCall string "string list" string string "string list"
  | ReadRefreshTokenCall string "string list" string string
  | ReadIDTokenCall string "string list" string string
  | ReadAccountCall string "string list" string
  | ReadAllAccountsCall
  | ReadAppMetadataCall "string list" string
  | WriteAccessTokenCall accessTokenCacheItem
  | WriteRefreshTokenCall refreshTokenCacheItem
  | WriteIDTokenCall idTokenCacheItem
  | WriteAccountCall Account
  | WriteAppMetadataCall appMetadata
  | DeleteCredentialsCall string string string string string string string "CredentialType \<rightharpoonup> bool"

text \<open>
  What an operation of the cache manager leaves behind: the value it returns, the port
  calls it made, the store after them, and the contents of the caller's
  \<open>*authParameters\<close> when it returns.
\<close>

record ('a, 's) outcome =
  returned :: 'a
  calls :: "call list"
  store :: 's
  params :: AuthParametersInternal

section \<open>Constructors and helpers of the other packages\<close>

text \<open>
  Modelled from the spec: the constructors \<open>CreateAccessTokenCacheItem\<close>,
  \<open>CreateRefreshTokenCacheItem\<close>, \<open>CreateIDTokenCacheItem\<close>, \<open>CreateAccount\<close>,
  \<open>CreateAppMetadata\<close> and \<open>CreateStorageTokenResponse\<close> are not among the sources
  at hand. Each stores its arguments in the entity of the data model (section 3 of the
  spec); the access token item keeps its three timestamps as decimal text, which is what
  \<open>isAccessTokenValid\<close> parses.
\<close>

definition CreateAccessTokenCacheItem ::
  "string \<Rightarrow> string \<Rightarrow> string \<Rightarrow> string \<Rightarrow> int64 \<Rightarrow> int64 \<Rightarrow> int64 \<Rightarrow> string \<Rightarrow> string
     \<Rightarrow> accessTokenCacheItem" where
  "CreateAccessTokenCacheItem homeAccountID environment realm clientID cachedAt expiresOn
       extendedExpiresOn scopes accessToken =
     \<lparr>at_HomeAccountID = homeAccountID, at_Environment = environment, at_Realm = realm,
      at_ClientID = clientID, at_Secret = accessToken, at_Scopes = scopes,
      CachedAt = FormatInt cachedAt, ExpiresOnUnixTimestamp = FormatInt expiresOn,
      ExtendedExpiresOnUnixTimestamp = FormatInt extendedExpiresOn\<rparr>"

definition CreateRefreshTokenCacheItem ::
  "string \<Rightarrow> string \<Rightarrow> string \<Rightarrow> string \<Rightarrow> string \<Rightarrow> refreshTokenCacheItem" where
  "CreateRefreshTokenCacheItem homeAccountID environment clientID refreshToken familyID =
     \<lparr>rt_HomeAccountID = homeAccountID, rt_Environment = environment, rt_ClientID = clientID,
      rt_Secret = refreshToken, rt_FamilyID = familyID\<rparr>"

definition CreateIDTokenCacheItem ::
  "string \<Rightarrow> string \<Rightarrow> string \<Rightarrow> string \<Rightarrow> string \<Rightarrow> idTokenCacheItem" where
  "CreateIDTokenCacheItem homeAccountID environment realm clientID idToken =
     \<lparr>idt_HomeAccountID = homeAccountID, idt_Environment = environment, idt_Realm = realm,
      idt_ClientID = clientID, idt_Secret = idToken\<rparr>"

definition CreateAccount ::
  "string \<Rightarrow> string \<Rightarrow> string \<Rightarrow> string \<Rightarrow> string \<Rightarrow> string \<Rightarrow> Account" where
  "CreateAccount homeAccountID environment realm localAccountID authorityType preferredUsername =
     \<lparr>acc_HomeAccountID = homeAccountID, acc_Environment = environment, acc_Realm = realm,
      acc_LocalAccountID = localAccountID, acc_AuthorityType = authorityType,
      acc_PreferredUsername = preferredUsername\<rparr>"

definition CreateAppMetadata :: "string \<Rightarrow> string \<Rightarrow> string \<Rightarrow> appMetadata" where
  "CreateAppMetadata familyID clientID environment =
     \<lparr>am_FamilyID = familyID, am_ClientID = clientID, am_Environment = environment\<rparr>"

definition CreateStorageTokenResponse ::
  "accessTokenCacheItem option \<Rightarrow> refreshTokenCacheItem option \<Rightarrow> idTokenCacheItem option
     \<Rightarrow> Account option \<Rightarrow> StorageTokenResponse" where
  "CreateStorageTokenResponse accessToken refreshToken idToken account =
     \<lparr>str_AccessToken = accessToken, str_RefreshToken = refreshToken, str_IDToken = idToken,
      str_Account = account\<rparr>"

text \<open>
  Modelled from the spec: \<open>msalbase.ConcatenateScopes\<close> is not among the sources at
  hand; the target is the granted scopes "serialized as a single space-joined string".
\<close>

fun ConcatenateScopes :: "string list \<Rightarrow> string" where
  "ConcatenateScopes [] = []"
| "ConcatenateScopes [x] = x"
| "ConcatenateScopes (x # y # ys) = x @ CHR '' '' # ConcatenateScopes (y # ys)"

text \<open>
  Modelled from the spec: the methods \<open>HasRefreshToken\<close> and \<open>HasAccessToken\<close> of the
  token response are not among the sources at hand; the response "carries" a token when
  its secret is not empty.
\<close>

definition HasRefreshToken :: "TokenResponse \<Rightarrow> bool" where
  "HasRefreshToken tokenResponse = (RefreshToken tokenResponse \<noteq> [])"

definition HasAccessToken :: "TokenResponse \<Rightarrow> bool" where
  "HasAccessToken tokenResponse = (AccessToken tokenResponse \<noteq> [])"

definition GetHomeAccountIDFromClientInfo :: "TokenResponse \<Rightarrow> string" where
  "GetHomeAccountIDFromClientInfo tokenResponse = HomeAccountIDFromClientInfo tokenResponse"

definition GetLocalAccountID :: "IDTokenClaims \<Rightarrow> string" where
  "GetLocalAccountID idToken = LocalAccountID idToken"

section \<open>The cache manager\<close>

text \<open>
  \<open>isAccessTokenValid\<close>, with the reading of \<open>time.Now().Unix()\<close> as the argument
  \<open>now\<close>. \<open>now + 300\<close> is the \<open>int64\<close> sum.
\<close>

definition isAccessTokenValid :: "int64 \<Rightarrow> accessTokenCacheItem \<Rightarrow> bool" where
  "isAccessTokenValid now accessToken =
     (case ParseInt (CachedAt accessToken) of
        Inl err \<Rightarrow> False
      | Inr cachedAt \<Rightarrow>
          if now <s cachedAt then False
          else (case ParseInt (ExpiresOnUnixTimestamp accessToken) of
                  Inl err \<Rightarrow> False
                | Inr expiresOn \<Rightarrow>
                    if expiresOn \<le>s now + 300 then False else True))"

definition GetAllAccounts :: "'s IStorageManager \<Rightarrow> 's \<Rightarrow> Account list" where
  "GetAllAccounts m s = ReadAllAccounts m s"

definition missingKeyRead :: error where
  "missingKeyRead = ErrorsNew ''Skipping the tokens cache lookup, one of the primary keys is empty''"

definition missingKeyWrite :: error where
  "missingKeyWrite =
     ErrorsNew ''Skipping writing data to the tokens cache, one of the primary keys is empty''"

definition missingKeyDelete :: error where
  "missingKeyDelete =
     ErrorsNew ''Failed to delete refresh token from the cache, one of the primary keys is empty''"

text \<open>
  \<open>TryReadCache\<close>. \<open>GetMetadataEntry\<close> is the alias resolver built from the web request
  manager; \<open>now\<close> is the clock reading of the one call of \<open>isAccessTokenValid\<close>.
\<close>

definition TryReadCache ::
  "'s IStorageManager \<Rightarrow> (AuthorityInfo \<Rightarrow> error + InstanceDiscoveryMetadata) \<Rightarrow> int64 \<Rightarrow> 's
     \<Rightarrow> AuthParametersInternal \<Rightarrow> (error + StorageTokenResponse, 's) outcome" where
  "TryReadCache m GetMetadataEntry now s authParameters =
     (let homeAccountID = HomeaccountID authParameters;
          realm = UserRealmURIPrefix (AuthorityInfo authParameters);
          clientID = ClientID authParameters;
          scopes = Scopes authParameters
      in case GetMetadataEntry (AuthorityInfo authParameters) of
           Inl err \<Rightarrow>
             \<lparr>returned = Inl err, calls = [], store = s, params = authParameters\<rparr>
         | Inr metadata \<Rightarrow>
             if homeAccountID = [] \<or> length (Aliases metadata) = 0 \<or> realm = []
                \<or> clientID = [] \<or> length scopes = 0
             then \<lparr>returned = Inl missingKeyRead, calls = [], store = s,
                   params = authParameters\<rparr>
             else
               let accessToken0 =
                     ReadAccessToken m s homeAccountID (Aliases metadata) realm clientID scopes;
                   accessToken =
                     (case accessToken0 of
                        None \<Rightarrow> None
                      | Some a \<Rightarrow> if \<not> isAccessTokenValid now a then None else Some a);
                   idToken = ReadIDToken m s homeAccountID (Aliases metadata) realm clientID;
                   appMetadata = ReadAppMetadata m s (Aliases metadata) clientID;
                   familyID = (case appMetadata of None \<Rightarrow> [] | Some a \<Rightarrow> am_FamilyID a);
                   refreshToken =
                     ReadRefreshToken m s homeAccountID (Aliases metadata) familyID clientID;
                   account = ReadAccount m s homeAccountID (Aliases metadata) realm
               in \<lparr>returned =
                      Inr (CreateStorageTokenResponse accessToken refreshToken idToken account),
                    calls =
                      [ReadAccessTokenCall homeAccountID (Aliases metadata) realm clientID scopes,
                       ReadIDTokenCall homeAccountID (Aliases metadata) realm clientID,
                       ReadAppMetadataCall (Aliases metadata) clientID,
                       ReadRefreshTokenCall homeAccountID (Aliases metadata) familyID clientID,
                       ReadAccountCall homeAccountID (Aliases metadata) realm],
                    store = s, params = authParameters\<rparr>)"

text \<open>
  \<open>CacheTokenResponse\<close> runs five write steps on three variables of the function: the
  variable \<open>err\<close>, the port calls made so far, and the store.
\<close>

record 's frame =
  fr_err :: "error option"
  fr_calls :: "call list"
  fr_store :: 's

text \<open>Lines 106-108: the refresh token is written when the response has one.\<close>

definition writeRefreshTokenStep ::
  "'s IStorageManager \<Rightarrow> TokenResponse \<Rightarrow> string \<Rightarrow> string \<Rightarrow> string \<Rightarrow> 's frame \<Rightarrow> 's frame" where
  "writeRefreshTokenStep m tokenResponse homeAccountID environment clientID f =
     (if HasRefreshToken tokenResponse
      then let refreshToken =
                 CreateRefreshTokenCacheItem homeAccountID environment clientID
                   (RefreshToken tokenResponse) (FamilyID tokenResponse);
               (e, s') = WriteRefreshToken m (fr_store f) refreshToken
           in \<lparr>fr_err = e, fr_calls = fr_calls f @ [WriteRefreshTokenCall refreshToken],
               fr_store = s'\<rparr>
      else f)"

text \<open>
  Lines 114-127: the access token item is built when the response has an access token,
  and written when \<open>isAccessTokenValid\<close> accepts it at the clock reading \<open>now2\<close>.
\<close>

definition writeAccessTokenStep ::
  "'s IStorageManager \<Rightarrow> int64 \<Rightarrow> TokenResponse \<Rightarrow> string \<Rightarrow> string \<Rightarrow> string \<Rightarrow> string
     \<Rightarrow> int64 \<Rightarrow> string \<Rightarrow> 's frame \<Rightarrow> 's frame" where
  "writeAccessTokenStep m now2 tokenResponse homeAccountID environment realm clientID cachedAt
       target f =
     (if HasAccessToken tokenResponse
      then let expiresOn = ExpiresOn tokenResponse;
               extendedExpiresOn = ExtExpiresOn tokenResponse;
               accessToken =
                 CreateAccessTokenCacheItem homeAccountID environment realm clientID cachedAt
                   expiresOn extendedExpiresOn target (AccessToken tokenResponse)
           in if isAccessTokenValid now2 accessToken
              then let (e, s') = WriteAccessToken m (fr_store f) accessToken
                   in \<lparr>fr_err = e, fr_calls = fr_calls f @ [WriteAccessTokenCall accessToken],
                       fr_store = s'\<rparr>
              else f
      else f)"

text \<open>
  Lines 134-137: the ID token is written; the result of \<open>WriteIDToken\<close> is assigned to
  nothing, so \<open>err\<close> keeps its value.
\<close>

definition writeIDTokenStep ::
  "'s IStorageManager \<Rightarrow> IDTokenClaims \<Rightarrow> string \<Rightarrow> string \<Rightarrow> string \<Rightarrow> string \<Rightarrow> 's frame
     \<Rightarrow> 's frame" where
  "writeIDTokenStep m idTokenJwt homeAccountID environment realm clientID f =
     (let idToken =
            CreateIDTokenCacheItem homeAccountID environment realm clientID (RawToken idTokenJwt);
          (ignored, s') = WriteIDToken m (fr_store f) idToken
      in \<lparr>fr_err = fr_err f, fr_calls = fr_calls f @ [WriteIDTokenCall idToken],
          fr_store = s'\<rparr>)"

text \<open>Line 155 and line 163: the account and the app metadata are written.\<close>

definition writeAccountStep :: "'s IStorageManager \<Rightarrow> Account \<Rightarrow> 's frame \<Rightarrow> 's frame" where
  "writeAccountStep m account f =
     (let (e, s') = WriteAccount m (fr_store f) account
      in \<lparr>fr_err = e, fr_calls = fr_calls f @ [WriteAccountCall account], fr_store = s'\<rparr>)"

definition writeAppMetadataStep :: "'s IStorageManager \<Rightarrow> appMetadata \<Rightarrow> 's frame \<Rightarrow> 's frame" where
  "writeAppMetadataStep m appMetadata f =
     (let (e, s') = WriteAppMetadata m (fr_store f) appMetadata
      in \<lparr>fr_err = e, fr_calls = fr_calls f @ [WriteAppMetadataCall appMetadata],
          fr_store = s'\<rparr>)"

text \<open>\<open>return nil, err\<close> and \<open>return account, nil\<close> from a frame.\<close>

definition returnFrom ::
  "error + Account \<Rightarrow> 's frame \<Rightarrow> AuthParametersInternal \<Rightarrow> (error + Account, 's) outcome" where
  "returnFrom r f authParameters =
     \<lparr>returned = r, calls = fr_calls f, store = fr_store f, params = authParameters\<rparr>"

text \<open>
  \<open>CacheTokenResponse\<close>. \<open>now1\<close> is the clock reading stored as \<open>cachedAt\<close> and
  \<open>now2\<close> the later reading inside \<open>isAccessTokenValid\<close>. \<open>err\<close> is \<open>nil\<close> at
  first, so the tests of \<open>err\<close> inside the two \<open>if\<close> blocks are made after them. The
  test after the ID token step reads \<open>err\<close> as the steps before left it.
\<close>

definition CacheTokenResponse ::
  "'s IStorageManager \<Rightarrow> int64 \<Rightarrow> int64 \<Rightarrow> 's \<Rightarrow> AuthParametersInternal \<Rightarrow> TokenResponse
     \<Rightarrow> (error + Account, 's) outcome" where
  "CacheTokenResponse m now1 now2 s authParameters0 tokenResponse =
     (let authParameters =
            authParameters0\<lparr>HomeaccountID := GetHomeAccountIDFromClientInfo tokenResponse\<rparr>;
          homeAccountID = HomeaccountID authParameters;
          environment = Host (AuthorityInfo authParameters);
          realm = UserRealmURIPrefix (AuthorityInfo authParameters);
          clientID = ClientID authParameters;
          target = ConcatenateScopes (GrantedScopes tokenResponse);
          f0 = \<lparr>fr_err = None, fr_calls = [], fr_store = s\<rparr>
      in if homeAccountID = [] \<or> environment = [] \<or> realm = [] \<or> clientID = [] \<or> target = []
         then returnFrom (Inl missingKeyWrite) f0 authParameters
         else
           let cachedAt = now1;
               f1 = writeRefreshTokenStep m tokenResponse homeAccountID environment clientID f0
           in (case fr_err f1 of
                 Some e \<Rightarrow> returnFrom (Inl e) f1 authParameters
               | None \<Rightarrow>
                   let f2 = writeAccessTokenStep m now2 tokenResponse homeAccountID environment
                              realm clientID cachedAt target f1
                   in (case fr_err f2 of
                         Some e \<Rightarrow> returnFrom (Inl e) f2 authParameters
                       | None \<Rightarrow>
                           let idTokenJwt = IDToken tokenResponse;
                               f3 = writeIDTokenStep m idTokenJwt homeAccountID environment
                                      realm clientID f2
                           in (case fr_err f3 of
                                 Some e \<Rightarrow> returnFrom (Inl e) f3 authParameters
                               | None \<Rightarrow>
                                   let localAccountID = GetLocalAccountID idTokenJwt;
                                       authorityType =
                                         AuthorityType (AuthorityInfo authParameters);
                                       account =
                                         CreateAccount homeAccountID environment realm
                                           localAccountID authorityType
                                           (PreferredUsername idTokenJwt);
                                       f4 = writeAccountStep m account f3
                                   in (case fr_err f4 of
                                         Some e \<Rightarrow> returnFrom (Inl e) f4 authParameters
                                       | None \<Rightarrow>
                                           let appMetadata =
                                                 CreateAppMetadata (FamilyID tokenResponse)
                                                   clientID environment;
                                               f5 = writeAppMetadataStep m appMetadata f4
                                           in (case fr_err f5 of
                                                 Some e \<Rightarrow>
                                                   returnFrom (Inl e) f5 authParameters
                                               | None \<Rightarrow>
                                                   returnFrom (Inr account) f5
                                                     authParameters))))))"

text \<open>
  \<open>DeleteCachedRefreshToken\<close>: \<open>homeAccountID\<close> and \<open>environment\<close> are the empty
  string literals of the source. \<open>None\<close> is the \<open>nil\<close> error. Logging is not part of
  the model, so the two outcomes of the status test return alike.
\<close>

definition DeleteCachedRefreshToken ::
  "'s IStorageManager \<Rightarrow> 's \<Rightarrow> AuthParametersInternal \<Rightarrow> (error option, 's) outcome" where
  "DeleteCachedRefreshToken m s authParameters =
     (let homeAccountID = [];
          environment = [];
          clientID = ClientID authParameters;
          emptyCorrelationID = [];
          emptyRealm = [];
          emptyFamilyID = [];
          emptyTarget = []
      in if homeAccountID = [] \<or> environment = [] \<or> clientID = []
         then \<lparr>returned = Some missingKeyDelete, calls = [], store = s, params = authParameters\<rparr>
         else
           let credentialTypes = [CredentialTypeOauth2RefreshToken \<mapsto> True];
               (r, s') = DeleteCredentials m s emptyCorrelationID homeAccountID environment
                           emptyRealm clientID emptyFamilyID emptyTarget credentialTypes;
               calls1 = [DeleteCredentialsCall emptyCorrelationID homeAccountID environment
                           emptyRealm clientID emptyFamilyID emptyTarget credentialTypes]
           in case r of
                Inl err \<Rightarrow>
                  \<lparr>returned = None, calls = calls1, store = s', params = authParameters\<rparr>
              | Inr operationStatus \<Rightarrow>
                  if StatusType operationStatus \<noteq> OperationStatusTypeSuccess
                  then \<lparr>returned = None, calls = calls1, store = s', params = authParameters\<rparr>
                  else \<lparr>returned = None, calls = calls1, store = s', params = authParameters\<rparr>)"

text \<open>
  \<open>deleteCachedAccessToken\<close> takes its keys as strings; it has no request parameters,
  so it returns the error, the calls and the store.
\<close>

definition deleteCachedAccessToken ::
  "'s IStorageManager \<Rightarrow> 's \<Rightarrow> string \<Rightarrow> string \<Rightarrow> string \<Rightarrow> string \<Rightarrow> string
     \<Rightarrow> error option \<times> call list \<times> 's" where
  "deleteCachedAccessToken m s homeAccountID environment realm clientID target =
     (let emptyCorrelationID = [];
          emptyFamilyID = [];
          credentialTypes = [CredentialTypeOauth2AccessToken \<mapsto> True];
          (r, s') = DeleteCredentials m s emptyCorrelationID homeAccountID environment realm
                      clientID emptyFamilyID target credentialTypes;
          calls1 = [DeleteCredentialsCall emptyCorrelationID homeAccountID environment realm
                      clientID emptyFamilyID target credentialTypes]
      in case r of
           Inl err \<Rightarrow> (Some err, calls1, s')
         | Inr operationStatus \<Rightarrow>
             if StatusType operationStatus \<noteq> OperationStatusTypeSuccess
             then (None, calls1, s')
             else (None, calls1, s'))"

section \<open>An in-memory Storage Port\<close>

text \<open>
  Modelled from the spec: no implementation of the Storage Port is among the sources at
  hand. This one keeps every entity in a list and serves the reads of section 6 of the
  spec: an entity matches when its home-account id, realm and client id are the requested
  ones and its environment is one of the aliases; an access token also when its target
  is the requested scope set; a refresh token is looked up by the family id when one is
  given and by the client id otherwise. \<open>failing\<close> names the operations that return an
  error. It serves as the concrete port of the examples below.
\<close>

record memStore =
  accessTokens :: "accessTokenCacheItem list"
  refreshTokens :: "refreshTokenCacheItem list"
  idTokens :: "idTokenCacheItem list"
  accounts :: "Account list"
  appMetadatas :: "appMetadata list"

definition emptyStore :: memStore where
  "emptyStore = \<lparr>accessTokens = [], refreshTokens = [], idTokens = [], accounts = [],
                  appMetadatas = []\<rparr>"

definition memWrite :: "string list \<Rightarrow> string \<Rightarrow> memStore \<Rightarrow> memStore \<Rightarrow> error option \<times> memStore" where
  "memWrite failing name s s' =
     (if name \<in> set failing then (Some (CollaboratorError name), s) else (None, s'))"

definition inMemoryStorage :: "string list \<Rightarrow> memStore IStorageManager" where
  "inMemoryStorage failing =
     \<lparr>ReadAccessToken = (\<lambda>s homeAccountID aliases realm clientID scopes.
        find (\<lambda>a. at_HomeAccountID a = homeAccountID \<and> at_Environment a \<in> set aliases
                  \<and> at_Realm a = realm \<and> at_ClientID a = clientID
                  \<and> at_Scopes a = ConcatenateScopes scopes) (accessTokens s)),
      ReadRefreshToken = (\<lambda>s homeAccountID aliases familyID clientID.
        find (\<lambda>r. rt_HomeAccountID r = homeAccountID \<and> rt_Environment r \<in> set aliases
                  \<and> (if familyID = [] then rt_ClientID r = clientID
                      else rt_FamilyID r = familyID)) (refreshTokens s)),
      ReadIDToken = (\<lambda>s homeAccountID aliases realm clientID.
        find (\<lambda>i. idt_HomeAccountID i = homeAccountID \<and> idt_Environment i \<in> set aliases
                  \<and> idt_Realm i = realm \<and> idt_ClientID i = clientID) (idTokens s)),
      ReadAccount = (\<lambda>s homeAccountID aliases realm.
        find (\<lambda>a. acc_HomeAccountID a = homeAccountID \<and> acc_Environment a \<in> set aliases
                  \<and> acc_Realm a = realm) (accounts s)),
      ReadAllAccounts = accounts,
      ReadAppMetadata = (\<lambda>s aliases clientID.
        find (\<lambda>a. am_Environment a \<in> set aliases \<and> am_ClientID a = clientID) (appMetadatas s)),
      WriteAccessToken = (\<lambda>s a.
        memWrite failing ''WriteAccessToken'' s (s\<lparr>accessTokens := a # accessTokens s\<rparr>)),
      WriteRefreshToken = (\<lambda>s r.
        memWrite failing ''WriteRefreshToken'' s (s\<lparr>refreshTokens := r # refreshTokens s\<rparr>)),
      WriteIDToken = (\<lambda>s i.
        memWrite failing ''WriteIDToken'' s (s\<lparr>idTokens := i # idTokens s\<rparr>)),
      WriteAccount = (\<lambda>s a.
        memWrite failing ''WriteAccount'' s (s\<lparr>accounts := a # accounts s\<rparr>)),
      WriteAppMetadata = (\<lambda>s a.
        memWrite failing ''WriteAppMetadata'' s (s\<lparr>appMetadatas := a # appMetadatas s\<rparr>)),
      DeleteCredentials = (\<lambda>s correlationID homeAccountID environment realm clientID familyID
                            target credentialTypes.
        if ''DeleteCredentials'' \<in> set failing
        then (Inl (CollaboratorError ''DeleteCredentials''), s)
        else (Inr \<lparr>StatusType = OperationStatusTypeSuccess\<rparr>,
              s\<lparr>accessTokens :=
                   (if credentialTypes CredentialTypeOauth2AccessToken = Some True
                    then filter (\<lambda>a. \<not> (at_HomeAccountID a = homeAccountID
                                        \<and> at_Environment a = environment
                                        \<and> at_ClientID a = clientID)) (accessTokens s)
                    else accessTokens s),
                 refreshTokens :=
                   (if credentialTypes CredentialTypeOauth2RefreshToken = Some True
                    then filter (\<lambda>r. \<not> (rt_HomeAccountID r = homeAccountID
                                        \<and> rt_Environment r = environment
                                        \<and> rt_ClientID r = clientID)) (refreshTokens s)
                    else refreshTokens s)\<rparr>))\<rparr>"

section \<open>Reading the call trace\<close>

text \<open>The access token items handed to \<open>WriteAccessToken\<close> in a trace of port calls.\<close>

fun writtenAccessToken :: "call \<Rightarrow> accessTokenCacheItem option" where
  "writtenAccessToken (WriteAccessTokenCall a) = Some a"
| "writtenAccessToken c = None"

definition accessTokenWrites :: "call list \<Rightarrow> accessTokenCacheItem list" where
  "accessTokenWrites cs = List.map_filter writtenAccessToken cs"

text \<open>
  The access token item that \<open>CacheTokenResponse\<close> builds from a request and a
  response when the clock reading kept as cached-at is \<open>now1\<close>, and the refresh token
  item it builds.
\<close>

definition accessTokenOf ::
  "int64 \<Rightarrow> AuthParametersInternal \<Rightarrow> TokenResponse \<Rightarrow> accessTokenCacheItem" where
  "accessTokenOf now1 authParameters tokenResponse =
     CreateAccessTokenCacheItem (GetHomeAccountIDFromClientInfo tokenResponse)
       (Host (AuthorityInfo authParameters)) (UserRealmURIPrefix (AuthorityInfo authParameters))
       (ClientID authParameters) now1 (ExpiresOn tokenResponse) (ExtExpiresOn tokenResponse)
       (ConcatenateScopes (GrantedScopes tokenResponse)) (AccessToken tokenResponse)"

definition refreshTokenOf :: "AuthParametersInternal \<Rightarrow> TokenResponse \<Rightarrow> refreshTokenCacheItem" where
  "refreshTokenOf authParameters tokenResponse =
     CreateRefreshTokenCacheItem (GetHomeAccountIDFromClientInfo tokenResponse)
       (Host (AuthorityInfo authParameters)) (ClientID authParameters)
       (RefreshToken tokenResponse) (FamilyID tokenResponse)"

definition idTokenOf :: "AuthParametersInternal \<Rightarrow> TokenResponse \<Rightarrow> idTokenCacheItem" where
  "idTokenOf authParameters tokenResponse =
     CreateIDTokenCacheItem (GetHomeAccountIDFromClientInfo tokenResponse)
       (Host (AuthorityInfo authParameters)) (UserRealmURIPrefix (AuthorityInfo authParameters))
       (ClientID authParameters) (RawToken (IDToken tokenResponse))"

definition accountOf :: "AuthParametersInternal \<Rightarrow> TokenResponse \<Rightarrow> Account" where
  "accountOf authParameters tokenResponse =
     CreateAccount (GetHomeAccountIDFromClientInfo tokenResponse)
       (Host (AuthorityInfo authParameters)) (UserRealmURIPrefix (AuthorityInfo authParameters))
       (GetLocalAccountID (IDToken tokenResponse)) (AuthorityType (AuthorityInfo authParameters))
       (PreferredUsername (IDToken tokenResponse))"

definition appMetadataOf :: "AuthParametersInternal \<Rightarrow> TokenResponse \<Rightarrow> appMetadata" where
  "appMetadataOf authParameters tokenResponse =
     CreateAppMetadata (FamilyID tokenResponse) (ClientID authParameters)
       (Host (AuthorityInfo authParameters))"

text \<open>The test of the five keys in \<open>CacheTokenResponse\<close>.\<close>

definition writeKeyMissing :: "AuthParametersInternal \<Rightarrow> TokenResponse \<Rightarrow> bool" where
  "writeKeyMissing authParameters tokenResponse \<longleftrightarrow>
     GetHomeAccountIDFromClientInfo tokenResponse = [] \<or> Host (AuthorityInfo authParameters) = []
     \<or> UserRealmURIPrefix (AuthorityInfo authParameters) = [] \<or> ClientID authParameters = []
     \<or> ConcatenateScopes (GrantedScopes tokenResponse) = []"

section \<open>Example inputs\<close>

text \<open>
  Concrete requests, responses, resolvers and stores, used to run the operations: an
  authority with two aliases, a request for client \<open>clientID\<close>, a token response that
  expires at \<open>expiresOn\<close>, and an access token item with given timestamps.
\<close>

definition exampleAuthority :: AuthorityInfo where
  "exampleAuthority =
     \<lparr>Host = ''login.contoso.com'', UserRealmURIPrefix = ''tenant'', AuthorityType = ''MSSTS''\<rparr>"

definition exampleParams :: "string \<Rightarrow> string \<Rightarrow> AuthParametersInternal" where
  "exampleParams homeAccountID clientID =
     \<lparr>AuthorityInfo = exampleAuthority, HomeaccountID = homeAccountID, ClientID = clientID,
      Scopes = [''user.read''], Username = ''user@contoso.com'', Password = []\<rparr>"

definition exampleResponse :: "string \<Rightarrow> int64 \<Rightarrow> TokenResponse" where
  "exampleResponse homeAccountID expiresOn =
     \<lparr>AccessToken = ''at-secret'', RefreshToken = ''rt-secret'',
      IDToken = \<lparr>RawToken = ''header.payload.signature'',
                 PreferredUsername = ''user@contoso.com'', LocalAccountID = ''oid''\<rparr>,
      FamilyID = ''F'', GrantedScopes = [''user.read''], ExpiresOn = expiresOn,
      ExtExpiresOn = expiresOn, HomeAccountIDFromClientInfo = homeAccountID\<rparr>"

definition exampleResolver :: "AuthorityInfo \<Rightarrow> error + InstanceDiscoveryMetadata" where
  "exampleResolver authorityInfo =
     Inr \<lparr>Aliases = [''login.contoso.com'', ''login.contoso.net'']\<rparr>"

definition failingResolver :: "AuthorityInfo \<Rightarrow> error + InstanceDiscoveryMetadata" where
  "failingResolver authorityInfo = Inl (CollaboratorError ''instance discovery failed'')"

definition exampleAccessToken :: "string \<Rightarrow> string \<Rightarrow> accessTokenCacheItem" where
  "exampleAccessToken cachedAt expiresOn =
     \<lparr>at_HomeAccountID = ''uid.utid'', at_Environment = ''login.contoso.net'',
      at_Realm = ''tenant'', at_ClientID = ''A'', at_Secret = ''at-secret'',
      at_Scopes = ''user.read'', CachedAt = cachedAt, ExpiresOnUnixTimestamp = expiresOn,
      ExtendedExpiresOnUnixTimestamp = expiresOn\<rparr>"

text \<open>
  Three stores: one that holds the app metadata of client \<open>A\<close> in family \<open>F\<close>, one
  that holds an access token expiring at 1300, and one that holds a refresh token of
  client \<open>A\<close>.
\<close>

definition familyStore :: memStore where
  "familyStore =
     emptyStore\<lparr>appMetadatas := [CreateAppMetadata ''F'' ''A'' ''login.contoso.com'']\<rparr>"

definition expiredStore :: memStore where
  "expiredStore = emptyStore\<lparr>accessTokens := [exampleAccessToken ''1000'' ''1300'']\<rparr>"

definition refreshStore :: memStore where
  "refreshStore =
     emptyStore\<lparr>refreshTokens :=
       [CreateRefreshTokenCacheItem ''uid.utid'' ''login.contoso.com'' ''A'' ''rt-secret'' []]\<rparr>"

section \<open>The validity evaluator\<close>

lemma sint_add_300:
  fixes now :: int64
  assumes "sint now + 300 < 2 ^ 63"
  shows "sint (now + 300) = sint now + 300"
proof -
  have lo: "- (2 ^ 63) \<le> sint now"
    using sint_ge [of now] by simp
  have "sint (now + 300) = signed_take_bit 63 (sint now + sint (300 :: int64))"
    by (simp add: sint_word_ariths)
  also have "sint (300 :: int64) = 300"
    by simp
  also have "signed_take_bit 63 (sint now + 300) = sint now + 300"
    using lo assms by (intro signed_take_bit_int_eq_self) simp_all
  finally show ?thesis .
qed

lemma isAccessTokenValid_machine:
  "isAccessTokenValid now a \<longleftrightarrow>
     (\<exists>cachedAt expiresOn.
        ParseInt (CachedAt a) = Inr cachedAt \<and>
        ParseInt (ExpiresOnUnixTimestamp a) = Inr expiresOn \<and>
        cachedAt \<le>s now \<and> now + 300 <s expiresOn)"
  by (auto simp: isAccessTokenValid_def word_sle_eq word_sless_alt split: sum.splits)

lemma ParseInt_1000: "ParseInt ''1000'' = Inr 1000"
  by (simp add: ParseInt_def ParseUint_def digit_def maxUint64_def)

lemma ParseInt_1300: "ParseInt ''1300'' = Inr 1300"
  by (simp add: ParseInt_def ParseUint_def digit_def maxUint64_def)

lemma ParseInt_1301: "ParseInt ''1301'' = Inr 1301"
  by (simp add: ParseInt_def ParseUint_def digit_def maxUint64_def)

lemma ParseInt_1001: "ParseInt ''1001'' = Inr 1001"
  by (simp add: ParseInt_def ParseUint_def digit_def maxUint64_def)

lemma ParseInt_soon: "ParseInt ''soon'' = Inl ErrSyntax"
  by (simp add: ParseInt_def ParseUint_def digit_def maxUint64_def)

text \<open>
  C1. An access token item is valid exactly when both timestamps parse, the cached-at
  time is not after \<open>now\<close> and the expiry is after \<open>now + 300\<close>. The first conjunct
  is the statement in the \<open>int64\<close> arithmetic of the program, for every clock reading;
  the second is the same over the integers, for every clock reading that leaves room for
  the 300 seconds below the largest \<open>int64\<close>.
\<close>

theorem isAccessTokenValid_iff:
  "(isAccessTokenValid now a \<longleftrightarrow>
      (\<exists>cachedAt expiresOn.
         ParseInt (CachedAt a) = Inr cachedAt \<and>
         ParseInt (ExpiresOnUnixTimestamp a) = Inr expiresOn \<and>
         cachedAt \<le>s now \<and> now + 300 <s expiresOn))
   \<and> (sint now + 300 < 2 ^ 63 \<longrightarrow>
        (isAccessTokenValid now a \<longleftrightarrow>
           (\<exists>cachedAt expiresOn.
              ParseInt (CachedAt a) = Inr cachedAt \<and>
              ParseInt (ExpiresOnUnixTimestamp a) = Inr expiresOn \<and>
              sint cachedAt \<le> sint now \<and> sint now + 300 < sint expiresOn)))"
proof (intro conjI impI)
  show m: "isAccessTokenValid now a \<longleftrightarrow>
      (\<exists>cachedAt expiresOn.
         ParseInt (CachedAt a) = Inr cachedAt \<and>
         ParseInt (ExpiresOnUnixTimestamp a) = Inr expiresOn \<and>
         cachedAt \<le>s now \<and> now + 300 <s expiresOn)"
    by (rule isAccessTokenValid_machine)
  assume "sint now + 300 < 2 ^ 63"
  then have "sint (now + 300) = sint now + 300"
    by (rule sint_add_300)
  then show "isAccessTokenValid now a \<longleftrightarrow>
           (\<exists>cachedAt expiresOn.
              ParseInt (CachedAt a) = Inr cachedAt \<and>
              ParseInt (ExpiresOnUnixTimestamp a) = Inr expiresOn \<and>
              sint cachedAt \<le> sint now \<and> sint now + 300 < sint expiresOn)"
    unfolding m by (simp add: word_sle_eq word_sless_alt)
qed

theorem isAccessTokenValid_iff_witness:
  "sint (1000 :: int64) + 300 < 2 ^ 63
   \<and> isAccessTokenValid 1000 (exampleAccessToken ''1000'' ''1301'')
   \<and> \<not> isAccessTokenValid 1000 (exampleAccessToken ''1000'' ''1300'')
   \<and> \<not> isAccessTokenValid 1000 (exampleAccessToken ''1001'' ''1301'')
   \<and> \<not> isAccessTokenValid 1000 (exampleAccessToken ''1000'' ''soon'')"
proof -
  have h: "sint (1000 :: int64) + 300 < 2 ^ 63"
    by simp
  have v: "isAccessTokenValid 1000 a \<longleftrightarrow>
           (\<exists>cachedAt expiresOn.
              ParseInt (CachedAt a) = Inr cachedAt \<and>
              ParseInt (ExpiresOnUnixTimestamp a) = Inr expiresOn \<and>
              sint cachedAt \<le> sint (1000 :: int64) \<and>
              sint (1000 :: int64) + 300 < sint expiresOn)" for a
    using isAccessTokenValid_iff [of 1000 a] h by blast
  have "isAccessTokenValid 1000 (exampleAccessToken ''1000'' ''1301'')"
    unfolding v by (simp add: exampleAccessToken_def ParseInt_1000 ParseInt_1301)
  moreover have "\<not> isAccessTokenValid 1000 (exampleAccessToken ''1000'' ''1300'')"
    unfolding v by (simp add: exampleAccessToken_def ParseInt_1000 ParseInt_1300)
  moreover have "\<not> isAccessTokenValid 1000 (exampleAccessToken ''1001'' ''1301'')"
    unfolding v by (simp add: exampleAccessToken_def ParseInt_1001 ParseInt_1301)
  moreover have "\<not> isAccessTokenValid 1000 (exampleAccessToken ''1000'' ''soon'')"
    unfolding v by (simp add: exampleAccessToken_def ParseInt_1000 ParseInt_soon)
  ultimately show ?thesis
    using h by blast
qed

section \<open>Deleting the refresh token\<close>

text \<open>
  C6. For every port, store and request, \<open>DeleteCachedRefreshToken\<close> returns the
  missing-cache-key error and calls the Storage Port not at all: the home-account id and
  the environment it tests are the empty string literals of the function, not fields of
  the request. The store and the request are left as they were.
\<close>

theorem DeleteCachedRefreshToken_always_missing_key:
  "DeleteCachedRefreshToken m s authParameters =
     \<lparr>returned = Some missingKeyDelete, calls = [], store = s, params = authParameters\<rparr>"
  by (simp add: DeleteCachedRefreshToken_def)

section \<open>The write steps\<close>

lemma returnFrom_simps [simp]:
  "returned (returnFrom r f ap) = r"
  "calls (returnFrom r f ap) = fr_calls f"
  "store (returnFrom r f ap) = fr_store f"
  "params (returnFrom r f ap) = ap"
  by (simp_all add: returnFrom_def)

lemma accessTokenWrites_append:
  "accessTokenWrites (xs @ ys) = accessTokenWrites xs @ accessTokenWrites ys"
  by (simp add: accessTokenWrites_def List.map_filter_def)

lemma accessTokenWrites_simps [simp]:
  "accessTokenWrites [] = []"
  "accessTokenWrites (WriteAccessTokenCall a # cs) = a # accessTokenWrites cs"
  "accessTokenWrites (WriteRefreshTokenCall r # cs) = accessTokenWrites cs"
  "accessTokenWrites (WriteIDTokenCall i # cs) = accessTokenWrites cs"
  "accessTokenWrites (WriteAccountCall c # cs) = accessTokenWrites cs"
  "accessTokenWrites (WriteAppMetadataCall d # cs) = accessTokenWrites cs"
  by (simp_all add: accessTokenWrites_def List.map_filter_def)

lemma writeRefreshTokenStep_writes [simp]:
  "accessTokenWrites (fr_calls (writeRefreshTokenStep m tr h e c f)) =
     accessTokenWrites (fr_calls f)"
  by (simp add: writeRefreshTokenStep_def Let_def split_def accessTokenWrites_append)

lemma writeIDTokenStep_writes [simp]:
  "accessTokenWrites (fr_calls (writeIDTokenStep m j h e r c f)) =
     accessTokenWrites (fr_calls f)"
  by (simp add: writeIDTokenStep_def Let_def split_def accessTokenWrites_append)

lemma writeAccountStep_writes [simp]:
  "accessTokenWrites (fr_calls (writeAccountStep m a f)) = accessTokenWrites (fr_calls f)"
  by (simp add: writeAccountStep_def Let_def split_def accessTokenWrites_append)

lemma writeAppMetadataStep_writes [simp]:
  "accessTokenWrites (fr_calls (writeAppMetadataStep m a f)) = accessTokenWrites (fr_calls f)"
  by (simp add: writeAppMetadataStep_def Let_def split_def accessTokenWrites_append)

lemma writeAccessTokenStep_writes:
  "accessTokenWrites (fr_calls (writeAccessTokenStep m now2 tr h e r c cachedAt t f)) =
     accessTokenWrites (fr_calls f) @
       (if HasAccessToken tr \<and>
           isAccessTokenValid now2
             (CreateAccessTokenCacheItem h e r c cachedAt (ExpiresOn tr) (ExtExpiresOn tr) t
                (AccessToken tr))
        then [CreateAccessTokenCacheItem h e r c cachedAt (ExpiresOn tr) (ExtExpiresOn tr) t
                (AccessToken tr)]
        else [])"
  by (simp add: writeAccessTokenStep_def Let_def split_def accessTokenWrites_append)

lemma writeAccessTokenStep_skip:
  "\<not> (HasAccessToken tr \<and>
       isAccessTokenValid now2
         (CreateAccessTokenCacheItem h e r c cachedAt (ExpiresOn tr) (ExtExpiresOn tr) t
            (AccessToken tr))) \<Longrightarrow>
   writeAccessTokenStep m now2 tr h e r c cachedAt t f = f"
  by (auto simp: writeAccessTokenStep_def Let_def)

lemma writeIDTokenStep_err [simp]:
  "fr_err (writeIDTokenStep m j h e r c f) = fr_err f"
  by (simp add: writeIDTokenStep_def Let_def split_def)

lemma writeIDTokenStep_calls [simp]:
  "fr_calls (writeIDTokenStep m j h e r c f) =
     fr_calls f @ [WriteIDTokenCall (CreateIDTokenCacheItem h e r c (RawToken j))]"
  by (simp add: writeIDTokenStep_def Let_def split_def)

lemma writeAccountStep_calls [simp]:
  "fr_calls (writeAccountStep m a f) = fr_calls f @ [WriteAccountCall a]"
  by (simp add: writeAccountStep_def Let_def split_def)

lemma writeAppMetadataStep_calls [simp]:
  "fr_calls (writeAppMetadataStep m a f) = fr_calls f @ [WriteAppMetadataCall a]"
  by (simp add: writeAppMetadataStep_def Let_def split_def)

lemma CacheTokenResponse_params:
  "params (CacheTokenResponse m now1 now2 s ap tr) =
     ap\<lparr>HomeaccountID := GetHomeAccountIDFromClientInfo tr\<rparr>"
  by (simp add: CacheTokenResponse_def Let_def split: option.split)

lemma CacheTokenResponse_missing_key:
  "writeKeyMissing ap tr \<Longrightarrow>
   CacheTokenResponse m now1 now2 s ap tr =
     \<lparr>returned = Inl missingKeyWrite, calls = [], store = s,
      params = ap\<lparr>HomeaccountID := GetHomeAccountIDFromClientInfo tr\<rparr>\<rparr>"
  unfolding CacheTokenResponse_def Let_def writeKeyMissing_def
  by (simp (no_asm_simp) add: returnFrom_def)

lemma CacheTokenResponse_writes:
  "accessTokenWrites (calls (CacheTokenResponse m now1 now2 s ap tr)) = [] \<or>
   accessTokenWrites (calls (CacheTokenResponse m now1 now2 s ap tr)) = [accessTokenOf now1 ap tr]
     \<and> HasAccessToken tr \<and> isAccessTokenValid now2 (accessTokenOf now1 ap tr)"
  by (simp add: CacheTokenResponse_def Let_def accessTokenOf_def writeAccessTokenStep_writes
        accessTokenWrites_append split: option.split)

section \<open>Runs on the in-memory port\<close>

lemma FormatInt_1000: "FormatInt 1000 = ''1000''"
  by (simp add: FormatInt_def digits_def word_sless_alt formatBits.simps)

lemma FormatInt_5000: "FormatInt 5000 = ''5000''"
  by (simp add: FormatInt_def digits_def word_sless_alt formatBits.simps)

lemma ParseInt_5000: "ParseInt ''5000'' = Inr 5000"
  by (simp add: ParseInt_def ParseUint_def digit_def maxUint64_def)

lemma valid_1000_5000:
  "isAccessTokenValid 1000 (CreateAccessTokenCacheItem h e r c 1000 5000 5000 t a)"
  by (simp add: isAccessTokenValid_def CreateAccessTokenCacheItem_def FormatInt_1000
        FormatInt_5000 ParseInt_1000 ParseInt_5000)

lemma invalid_1000_1000:
  "\<not> isAccessTokenValid 1000 (CreateAccessTokenCacheItem h e r c 1000 1000 1000 t a)"
  by (simp add: isAccessTokenValid_def CreateAccessTokenCacheItem_def FormatInt_1000
        ParseInt_1000)

lemma inMemoryStorage_writes:
  "WriteAccessToken (inMemoryStorage failing) s a =
     memWrite failing ''WriteAccessToken'' s (s\<lparr>accessTokens := a # accessTokens s\<rparr>)"
  "WriteRefreshToken (inMemoryStorage failing) s r =
     memWrite failing ''WriteRefreshToken'' s (s\<lparr>refreshTokens := r # refreshTokens s\<rparr>)"
  "WriteIDToken (inMemoryStorage failing) s i =
     memWrite failing ''WriteIDToken'' s (s\<lparr>idTokens := i # idTokens s\<rparr>)"
  "WriteAccount (inMemoryStorage failing) s c =
     memWrite failing ''WriteAccount'' s (s\<lparr>accounts := c # accounts s\<rparr>)"
  "WriteAppMetadata (inMemoryStorage failing) s d =
     memWrite failing ''WriteAppMetadata'' s (s\<lparr>appMetadatas := d # appMetadatas s\<rparr>)"
  by (simp_all add: inMemoryStorage_def)

lemma inMemoryStorage_reads:
  "ReadAccessToken (inMemoryStorage failing) s h als r c scopes =
     find (\<lambda>a. at_HomeAccountID a = h \<and> at_Environment a \<in> set als \<and> at_Realm a = r
                \<and> at_ClientID a = c \<and> at_Scopes a = ConcatenateScopes scopes) (accessTokens s)"
  "ReadRefreshToken (inMemoryStorage failing) s h als fid c =
     find (\<lambda>r. rt_HomeAccountID r = h \<and> rt_Environment r \<in> set als
                \<and> (if fid = [] then rt_ClientID r = c else rt_FamilyID r = fid))
       (refreshTokens s)"
  "ReadIDToken (inMemoryStorage failing) s h als r c =
     find (\<lambda>i. idt_HomeAccountID i = h \<and> idt_Environment i \<in> set als \<and> idt_Realm i = r
                \<and> idt_ClientID i = c) (idTokens s)"
  "ReadAccount (inMemoryStorage failing) s h als r =
     find (\<lambda>a. acc_HomeAccountID a = h \<and> acc_Environment a \<in> set als \<and> acc_Realm a = r)
       (accounts s)"
  "ReadAppMetadata (inMemoryStorage failing) s als c =
     find (\<lambda>a. am_Environment a \<in> set als \<and> am_ClientID a = c) (appMetadatas s)"
  by (simp_all add: inMemoryStorage_def)

lemmas example_defs =
  exampleParams_def exampleResponse_def exampleAuthority_def emptyStore_def
  GetHomeAccountIDFromClientInfo_def GetLocalAccountID_def HasRefreshToken_def
  HasAccessToken_def CreateRefreshTokenCacheItem_def CreateIDTokenCacheItem_def
  CreateAccount_def CreateAppMetadata_def

lemmas step_defs =
  writeRefreshTokenStep_def writeAccessTokenStep_def writeIDTokenStep_def
  writeAccountStep_def writeAppMetadataStep_def returnFrom_def

lemma run_idtoken_failure:
  "CacheTokenResponse (inMemoryStorage [''WriteIDToken'']) 1000 1000 emptyStore
     (exampleParams [] ''A'') (exampleResponse ''uid.utid'' 5000) =
   \<lparr>returned = Inr (accountOf (exampleParams [] ''A'') (exampleResponse ''uid.utid'' 5000)),
    calls =
      [WriteRefreshTokenCall
         (refreshTokenOf (exampleParams [] ''A'') (exampleResponse ''uid.utid'' 5000)),
       WriteAccessTokenCall
         (accessTokenOf 1000 (exampleParams [] ''A'') (exampleResponse ''uid.utid'' 5000)),
       WriteIDTokenCall
         (idTokenOf (exampleParams [] ''A'') (exampleResponse ''uid.utid'' 5000)),
       WriteAccountCall
         (accountOf (exampleParams [] ''A'') (exampleResponse ''uid.utid'' 5000)),
       WriteAppMetadataCall
         (appMetadataOf (exampleParams [] ''A'') (exampleResponse ''uid.utid'' 5000))],
    store =
      \<lparr>accessTokens =
         [accessTokenOf 1000 (exampleParams [] ''A'') (exampleResponse ''uid.utid'' 5000)],
       refreshTokens =
         [refreshTokenOf (exampleParams [] ''A'') (exampleResponse ''uid.utid'' 5000)],
       idTokens = [],
       accounts = [accountOf (exampleParams [] ''A'') (exampleResponse ''uid.utid'' 5000)],
       appMetadatas =
         [appMetadataOf (exampleParams [] ''A'') (exampleResponse ''uid.utid'' 5000)]\<rparr>,
    params = exampleParams ''uid.utid'' ''A''\<rparr>"
  by (simp add: CacheTokenResponse_def Let_def step_defs example_defs inMemoryStorage_writes
        memWrite_def accountOf_def refreshTokenOf_def accessTokenOf_def idTokenOf_def
        appMetadataOf_def valid_1000_5000)

lemma writeRefreshTokenStep_err:
  "fr_err (writeRefreshTokenStep m tr h e c f) =
     (if HasRefreshToken tr
      then fst (WriteRefreshToken m (fr_store f)
                  (CreateRefreshTokenCacheItem h e c (RefreshToken tr) (FamilyID tr)))
      else fr_err f)"
  by (simp add: writeRefreshTokenStep_def Let_def split_def)

lemma writeRefreshTokenStep_calls:
  "fr_calls (writeRefreshTokenStep m tr h e c f) =
     fr_calls f @
       (if HasRefreshToken tr
        then [WriteRefreshTokenCall
                (CreateRefreshTokenCacheItem h e c (RefreshToken tr) (FamilyID tr))]
        else [])"
  by (simp add: writeRefreshTokenStep_def Let_def split_def)

lemma writeAccountStep_err:
  "fr_err (writeAccountStep m a f) = fst (WriteAccount m (fr_store f) a)"
  by (simp add: writeAccountStep_def Let_def split_def)

lemma writeAppMetadataStep_err:
  "fr_err (writeAppMetadataStep m a f) = fst (WriteAppMetadata m (fr_store f) a)"
  by (simp add: writeAppMetadataStep_def Let_def split_def)

lemma writeRefreshTokenStep_AccessToken_update [simp]:
  "writeRefreshTokenStep m (tr\<lparr>AccessToken := x\<rparr>) h e c f = writeRefreshTokenStep m tr h e c f"
  by (simp add: writeRefreshTokenStep_def HasRefreshToken_def)

lemma CacheTokenResponse_skip_eq:
  assumes "HasAccessToken tr" and "\<not> isAccessTokenValid now2 (accessTokenOf now1 ap tr)"
  shows "CacheTokenResponse m now1 now2 s ap tr =
         CacheTokenResponse m now1 now2 s ap (tr\<lparr>AccessToken := []\<rparr>)"
proof -
  have a: "writeAccessTokenStep m now2 tr (GetHomeAccountIDFromClientInfo tr)
             (Host (AuthorityInfo ap)) (UserRealmURIPrefix (AuthorityInfo ap)) (ClientID ap) now1
             (ConcatenateScopes (GrantedScopes tr)) f = f" for f
    using assms(2) by (intro writeAccessTokenStep_skip) (simp add: accessTokenOf_def)
  have b: "writeAccessTokenStep m now2 (tr\<lparr>AccessToken := []\<rparr>) h e r c t0 t f = f"
    for h e r c t0 t f
    by (intro writeAccessTokenStep_skip) (simp add: HasAccessToken_def)
  have g: "GetHomeAccountIDFromClientInfo (tr\<lparr>AccessToken := []\<rparr>) =
           GetHomeAccountIDFromClientInfo tr"
    by (simp add: GetHomeAccountIDFromClientInfo_def)
  show ?thesis
    by (simp add: CacheTokenResponse_def Let_def a b g cong: option.case_cong)
qed

lemma CacheTokenResponse_skip_run:
  assumes "HasAccessToken tr" and "\<not> isAccessTokenValid now2 (accessTokenOf now1 ap tr)"
    and "\<not> writeKeyMissing ap tr"
    and "HasRefreshToken tr \<longrightarrow> fst (WriteRefreshToken m s (refreshTokenOf ap tr)) = None"
    and "\<forall>s' a. fst (WriteAccount m s' a) = None"
    and "\<forall>s' d. fst (WriteAppMetadata m s' d) = None"
  shows "returned (CacheTokenResponse m now1 now2 s ap tr) = Inr (accountOf ap tr) \<and>
         calls (CacheTokenResponse m now1 now2 s ap tr) =
           (if HasRefreshToken tr then [WriteRefreshTokenCall (refreshTokenOf ap tr)] else []) @
           [WriteIDTokenCall (idTokenOf ap tr), WriteAccountCall (accountOf ap tr),
            WriteAppMetadataCall (appMetadataOf ap tr)]"
proof -
  have a: "writeAccessTokenStep m now2 tr (GetHomeAccountIDFromClientInfo tr)
             (Host (AuthorityInfo ap)) (UserRealmURIPrefix (AuthorityInfo ap)) (ClientID ap) now1
             (ConcatenateScopes (GrantedScopes tr)) f = f" for f
    using assms(2) by (intro writeAccessTokenStep_skip) (simp add: accessTokenOf_def)
  have r: "fr_err (writeRefreshTokenStep m tr (GetHomeAccountIDFromClientInfo tr)
             (Host (AuthorityInfo ap)) (ClientID ap)
             \<lparr>fr_err = None, fr_calls = [], fr_store = s\<rparr>) = None"
    using assms(4) by (simp add: writeRefreshTokenStep_err refreshTokenOf_def)
  show ?thesis
    using assms(3,5,6)
    by (simp add: CacheTokenResponse_def Let_def writeKeyMissing_def a r
          writeAccountStep_err writeAppMetadataStep_err writeRefreshTokenStep_calls
          refreshTokenOf_def idTokenOf_def accountOf_def appMetadataOf_def)
qed

text \<open>
  C9. Every access token item that \<open>CacheTokenResponse\<close> hands to
  \<open>WriteAccessToken\<close> was accepted by the validity evaluator at the clock reading
  \<open>now2\<close> taken just before the write: its two timestamps parse, its cached-at time is
  not after \<open>now2\<close>, and it expires after \<open>now2 + 300\<close>. A response whose access token
  is not accepted is handled as a response with no access token: nothing is handed to
  \<open>WriteAccessToken\<close>, and when the other writes succeed the call returns the account
  after writing the refresh token (if any), the ID token, the account and the app
  metadata.
\<close>

theorem CacheTokenResponse_validates_access_token:
  "list_all
     (\<lambda>a. isAccessTokenValid now2 a \<and>
          (\<exists>cachedAt expiresOn.
             ParseInt (CachedAt a) = Inr cachedAt \<and>
             ParseInt (ExpiresOnUnixTimestamp a) = Inr expiresOn \<and>
             cachedAt \<le>s now2 \<and> now2 + 300 <s expiresOn))
     (accessTokenWrites (calls (CacheTokenResponse m now1 now2 s ap tr)))
   \<and> (HasAccessToken tr \<and> \<not> isAccessTokenValid now2 (accessTokenOf now1 ap tr) \<longrightarrow>
        accessTokenWrites (calls (CacheTokenResponse m now1 now2 s ap tr)) = [] \<and>
        CacheTokenResponse m now1 now2 s ap tr =
          CacheTokenResponse m now1 now2 s ap (tr\<lparr>AccessToken := []\<rparr>))
   \<and> (HasAccessToken tr \<and> \<not> isAccessTokenValid now2 (accessTokenOf now1 ap tr) \<and>
       \<not> writeKeyMissing ap tr \<and>
       (HasRefreshToken tr \<longrightarrow> fst (WriteRefreshToken m s (refreshTokenOf ap tr)) = None) \<and>
       (\<forall>s' a. fst (WriteAccount m s' a) = None) \<and>
       (\<forall>s' d. fst (WriteAppMetadata m s' d) = None) \<longrightarrow>
        returned (CacheTokenResponse m now1 now2 s ap tr) = Inr (accountOf ap tr) \<and>
        calls (CacheTokenResponse m now1 now2 s ap tr) =
          (if HasRefreshToken tr then [WriteRefreshTokenCall (refreshTokenOf ap tr)] else []) @
          [WriteIDTokenCall (idTokenOf ap tr), WriteAccountCall (accountOf ap tr),
           WriteAppMetadataCall (appMetadataOf ap tr)])"
proof (intro conjI impI)
  let ?w = "accessTokenWrites (calls (CacheTokenResponse m now1 now2 s ap tr))"
  have w: "?w = [] \<or> ?w = [accessTokenOf now1 ap tr] \<and> HasAccessToken tr
             \<and> isAccessTokenValid now2 (accessTokenOf now1 ap tr)"
    by (rule CacheTokenResponse_writes)
  then have "list_all (isAccessTokenValid now2) ?w"
    by auto
  then show "list_all
     (\<lambda>a. isAccessTokenValid now2 a \<and>
          (\<exists>cachedAt expiresOn.
             ParseInt (CachedAt a) = Inr cachedAt \<and>
             ParseInt (ExpiresOnUnixTimestamp a) = Inr expiresOn \<and>
             cachedAt \<le>s now2 \<and> now2 + 300 <s expiresOn)) ?w"
    by (auto simp: list_all_iff isAccessTokenValid_machine)
  {
    assume h: "HasAccessToken tr \<and> \<not> isAccessTokenValid now2 (accessTokenOf now1 ap tr)"
    from w h show "?w = []"
      by auto
    from h show "CacheTokenResponse m now1 now2 s ap tr =
          CacheTokenResponse m now1 now2 s ap (tr\<lparr>AccessToken := []\<rparr>)"
      by (intro CacheTokenResponse_skip_eq) simp_all
  }
  {
    assume h: "HasAccessToken tr \<and> \<not> isAccessTokenValid now2 (accessTokenOf now1 ap tr) \<and>
       \<not> writeKeyMissing ap tr \<and>
       (HasRefreshToken tr \<longrightarrow> fst (WriteRefreshToken m s (refreshTokenOf ap tr)) = None) \<and>
       (\<forall>s' a. fst (WriteAccount m s' a) = None) \<and>
       (\<forall>s' d. fst (WriteAppMetadata m s' d) = None)"
    then have r: "returned (CacheTokenResponse m now1 now2 s ap tr) = Inr (accountOf ap tr) \<and>
         calls (CacheTokenResponse m now1 now2 s ap tr) =
           (if HasRefreshToken tr then [WriteRefreshTokenCall (refreshTokenOf ap tr)] else []) @
           [WriteIDTokenCall (idTokenOf ap tr), WriteAccountCall (accountOf ap tr),
            WriteAppMetadataCall (appMetadataOf ap tr)]"
      by (intro CacheTokenResponse_skip_run) simp_all
    from r show "returned (CacheTokenResponse m now1 now2 s ap tr) = Inr (accountOf ap tr)"
      by simp
    from r show "calls (CacheTokenResponse m now1 now2 s ap tr) =
           (if HasRefreshToken tr then [WriteRefreshTokenCall (refreshTokenOf ap tr)] else []) @
           [WriteIDTokenCall (idTokenOf ap tr), WriteAccountCall (accountOf ap tr),
            WriteAppMetadataCall (appMetadataOf ap tr)]"
      by simp
  }
qed

lemma inMemoryStorage_never_fails:
  "fst (WriteRefreshToken (inMemoryStorage []) s r) = None"
  "fst (WriteAccount (inMemoryStorage []) s a) = None"
  "fst (WriteAppMetadata (inMemoryStorage []) s d) = None"
  by (simp_all add: inMemoryStorage_writes memWrite_def)

lemma example_keys_present:
  "\<not> writeKeyMissing (exampleParams h ''A'') (exampleResponse ''uid.utid'' e)"
  by (simp add: writeKeyMissing_def example_defs)

theorem CacheTokenResponse_validates_access_token_witness:
  "HasAccessToken (exampleResponse ''uid.utid'' 1000)
   \<and> \<not> isAccessTokenValid 1000
         (accessTokenOf 1000 (exampleParams [] ''A'') (exampleResponse ''uid.utid'' 1000))
   \<and> \<not> writeKeyMissing (exampleParams [] ''A'') (exampleResponse ''uid.utid'' 1000)
   \<and> accessTokenWrites
        (calls (CacheTokenResponse (inMemoryStorage []) 1000 1000 emptyStore
                  (exampleParams [] ''A'') (exampleResponse ''uid.utid'' 1000))) = []
   \<and> returned (CacheTokenResponse (inMemoryStorage []) 1000 1000 emptyStore
                  (exampleParams [] ''A'') (exampleResponse ''uid.utid'' 1000)) =
        Inr (accountOf (exampleParams [] ''A'') (exampleResponse ''uid.utid'' 1000))
   \<and> calls (CacheTokenResponse (inMemoryStorage []) 1000 1000 emptyStore
               (exampleParams [] ''A'') (exampleResponse ''uid.utid'' 1000)) =
        [WriteRefreshTokenCall
           (refreshTokenOf (exampleParams [] ''A'') (exampleResponse ''uid.utid'' 1000)),
         WriteIDTokenCall (idTokenOf (exampleParams [] ''A'') (exampleResponse ''uid.utid'' 1000)),
         WriteAccountCall (accountOf (exampleParams [] ''A'') (exampleResponse ''uid.utid'' 1000)),
         WriteAppMetadataCall
           (appMetadataOf (exampleParams [] ''A'') (exampleResponse ''uid.utid'' 1000))]"
proof -
  let ?ap = "exampleParams [] ''A''" and ?tr = "exampleResponse ''uid.utid'' 1000"
  let ?m = "inMemoryStorage [] :: memStore IStorageManager"
  have h1: "HasAccessToken ?tr"
    by (simp add: example_defs)
  have h2: "\<not> isAccessTokenValid 1000 (accessTokenOf 1000 ?ap ?tr)"
    by (simp add: accessTokenOf_def exampleResponse_def invalid_1000_1000)
  have h3: "\<not> writeKeyMissing ?ap ?tr"
    by (rule example_keys_present)
  have h4: "HasRefreshToken ?tr"
    by (simp add: example_defs)
  note t = CacheTokenResponse_validates_access_token
             [of 1000 ?m 1000 emptyStore ?ap ?tr]
  have a: "accessTokenWrites (calls (CacheTokenResponse ?m 1000 1000 emptyStore ?ap ?tr)) = []"
    using t h1 h2 by blast
  have b: "returned (CacheTokenResponse ?m 1000 1000 emptyStore ?ap ?tr) =
             Inr (accountOf ?ap ?tr) \<and>
           calls (CacheTokenResponse ?m 1000 1000 emptyStore ?ap ?tr) =
             (if HasRefreshToken ?tr then [WriteRefreshTokenCall (refreshTokenOf ?ap ?tr)]
              else []) @
             [WriteIDTokenCall (idTokenOf ?ap ?tr), WriteAccountCall (accountOf ?ap ?tr),
              WriteAppMetadataCall (appMetadataOf ?ap ?tr)]"
    using t h1 h2 h3 inMemoryStorage_never_fails by blast
  show ?thesis
    using h1 h2 h3 a b h4 by simp
qed

section \<open>The ID token write\<close>

text \<open>
  C2 fails on the ID token step. On a port whose \<open>WriteIDToken\<close> always returns an
  error, a response with present keys is persisted through to the end: the account and
  the app metadata are written after the failed ID token write, and the call returns
  the account, not the error.
\<close>

theorem CacheTokenResponse_WriteIDToken_error_ignored:
  "(\<forall>s i. fst (WriteIDToken (inMemoryStorage [''WriteIDToken'']) s i) =
            Some (CollaboratorError ''WriteIDToken''))
   \<and> returned (CacheTokenResponse (inMemoryStorage [''WriteIDToken'']) 1000 1000 emptyStore
                  (exampleParams [] ''A'') (exampleResponse ''uid.utid'' 5000)) =
        Inr (accountOf (exampleParams [] ''A'') (exampleResponse ''uid.utid'' 5000))
   \<and> calls (CacheTokenResponse (inMemoryStorage [''WriteIDToken'']) 1000 1000 emptyStore
                  (exampleParams [] ''A'') (exampleResponse ''uid.utid'' 5000)) =
        [WriteRefreshTokenCall
           (refreshTokenOf (exampleParams [] ''A'') (exampleResponse ''uid.utid'' 5000)),
         WriteAccessTokenCall
           (accessTokenOf 1000 (exampleParams [] ''A'') (exampleResponse ''uid.utid'' 5000)),
         WriteIDTokenCall (idTokenOf (exampleParams [] ''A'') (exampleResponse ''uid.utid'' 5000)),
         WriteAccountCall (accountOf (exampleParams [] ''A'') (exampleResponse ''uid.utid'' 5000)),
         WriteAppMetadataCall
           (appMetadataOf (exampleParams [] ''A'') (exampleResponse ''uid.utid'' 5000))]"
  by (simp add: run_idtoken_failure inMemoryStorage_writes memWrite_def)

text \<open>
  The same on every port: what \<open>CacheTokenResponse\<close> returns, the calls it makes and
  the store it leaves do not depend on the error that \<open>WriteIDToken\<close> returns.
\<close>

lemma CacheTokenResponse_WriteIDToken_result_unused:
  "CacheTokenResponse (m\<lparr>WriteIDToken := \<lambda>s i. (e, snd (WriteIDToken m s i))\<rparr>)
     now1 now2 s ap tr =
   CacheTokenResponse m now1 now2 s ap tr"
proof -
  let ?m = "m\<lparr>WriteIDToken := \<lambda>s i. (e, snd (WriteIDToken m s i))\<rparr>"
  have 1: "writeRefreshTokenStep ?m = writeRefreshTokenStep m"
    by (intro ext) (simp add: writeRefreshTokenStep_def Let_def)
  have 2: "writeAccessTokenStep ?m = writeAccessTokenStep m"
    by (intro ext) (simp add: writeAccessTokenStep_def Let_def)
  have 3: "writeIDTokenStep ?m = writeIDTokenStep m"
    by (intro ext) (simp add: writeIDTokenStep_def Let_def split_def)
  have 4: "writeAccountStep ?m = writeAccountStep m"
    by (intro ext) (simp add: writeAccountStep_def Let_def)
  have 5: "writeAppMetadataStep ?m = writeAppMetadataStep m"
    by (intro ext) (simp add: writeAppMetadataStep_def Let_def)
  show ?thesis
    unfolding CacheTokenResponse_def 1 2 3 4 5 ..
qed

section \<open>The request parameters\<close>

text \<open>
  C10. \<open>CacheTokenResponse\<close> leaves the caller's request parameters with
  \<open>HomeaccountID\<close> set to the home-account id of the response's client info and every
  other field as it was, on every input (so also when it returns the missing-cache-key
  error); \<open>TryReadCache\<close> and \<open>DeleteCachedRefreshToken\<close> leave them unchanged.
\<close>

theorem request_parameters_frame:
  "params (CacheTokenResponse m now1 now2 s ap tr) =
     ap\<lparr>HomeaccountID := GetHomeAccountIDFromClientInfo tr\<rparr>
   \<and> params (TryReadCache m GetMetadataEntry now s ap) = ap
   \<and> params (DeleteCachedRefreshToken m s ap) = ap"
  by (simp add: CacheTokenResponse_params TryReadCache_def DeleteCachedRefreshToken_def Let_def
        split: sum.split)

theorem request_parameters_frame_witness:
  "returned (CacheTokenResponse (inMemoryStorage []) 1000 1000 emptyStore
               (exampleParams ''old.id'' []) (exampleResponse ''uid.utid'' 5000)) =
     Inl missingKeyWrite
   \<and> params (CacheTokenResponse (inMemoryStorage []) 1000 1000 emptyStore
               (exampleParams ''old.id'' []) (exampleResponse ''uid.utid'' 5000)) =
     exampleParams ''uid.utid'' []"
proof -
  have "writeKeyMissing (exampleParams ''old.id'' []) (exampleResponse ''uid.utid'' 5000)"
    by (simp add: writeKeyMissing_def example_defs)
  then have "returned (CacheTokenResponse (inMemoryStorage []) 1000 1000 emptyStore
               (exampleParams ''old.id'' []) (exampleResponse ''uid.utid'' 5000)) =
             Inl missingKeyWrite"
    by (simp add: CacheTokenResponse_missing_key)
  moreover have "params (CacheTokenResponse (inMemoryStorage []) 1000 1000 emptyStore
               (exampleParams ''old.id'' []) (exampleResponse ''uid.utid'' 5000)) =
             exampleParams ''uid.utid'' []"
    using request_parameters_frame
            [of "inMemoryStorage []" 1000 1000 emptyStore "exampleParams ''old.id'' []"
               "exampleResponse ''uid.utid'' 5000"]
    by (simp add: example_defs)
  ultimately show ?thesis
    by simp
qed

section \<open>The deletions\<close>

text \<open>
  C5 fails on the code: on a port that deletes without error, and a store that holds a
  refresh token of the request's client, two calls of \<open>DeleteCachedRefreshToken\<close> in
  succession both return the missing-cache-key error, neither calls the port, and the
  refresh token is still in the store.
\<close>

theorem DeleteCachedRefreshToken_twice_fails:
  "returned (DeleteCachedRefreshToken (inMemoryStorage []) refreshStore
               (exampleParams ''uid.utid'' ''A'')) = Some missingKeyDelete
   \<and> returned (DeleteCachedRefreshToken (inMemoryStorage [])
                 (store (DeleteCachedRefreshToken (inMemoryStorage []) refreshStore
                           (exampleParams ''uid.utid'' ''A'')))
                 (exampleParams ''uid.utid'' ''A'')) = Some missingKeyDelete
   \<and> calls (DeleteCachedRefreshToken (inMemoryStorage []) refreshStore
               (exampleParams ''uid.utid'' ''A'')) = []
   \<and> store (DeleteCachedRefreshToken (inMemoryStorage [])
               (store (DeleteCachedRefreshToken (inMemoryStorage []) refreshStore
                         (exampleParams ''uid.utid'' ''A'')))
               (exampleParams ''uid.utid'' ''A'')) = refreshStore"
  by (simp add: DeleteCachedRefreshToken_def)

text \<open>
  C7 fails on the code: \<open>deleteCachedAccessToken\<close> with every key empty calls
  \<open>DeleteCredentials\<close> with the empty keys and returns no error.
\<close>

theorem deleteCachedAccessToken_no_key_check:
  "deleteCachedAccessToken (inMemoryStorage []) expiredStore [] [] [] [] [] =
     (None,
      [DeleteCredentialsCall [] [] [] [] [] [] [] [CredentialTypeOauth2AccessToken \<mapsto> True]],
      expiredStore)"
  by (simp add: deleteCachedAccessToken_def inMemoryStorage_def expiredStore_def emptyStore_def
        exampleAccessToken_def)

section \<open>The read path\<close>

lemma TryReadCache_resolver_error:
  "GetMetadataEntry (AuthorityInfo ap) = Inl e \<Longrightarrow>
     TryReadCache m GetMetadataEntry now s ap =
       \<lparr>returned = Inl e, calls = [], store = s, params = ap\<rparr>"
  by (simp add: TryReadCache_def)

lemma TryReadCache_missing_key:
  "GetMetadataEntry (AuthorityInfo ap) = Inr md \<Longrightarrow>
   HomeaccountID ap = [] \<or> Aliases md = [] \<or> UserRealmURIPrefix (AuthorityInfo ap) = []
     \<or> ClientID ap = [] \<or> Scopes ap = [] \<Longrightarrow>
     TryReadCache m GetMetadataEntry now s ap =
       \<lparr>returned = Inl missingKeyRead, calls = [], store = s, params = ap\<rparr>"
  by (auto simp: TryReadCache_def)

lemma TryReadCache_reads:
  assumes "GetMetadataEntry (AuthorityInfo ap) = Inr md"
    and "HomeaccountID ap \<noteq> []" and "Aliases md \<noteq> []"
    and "UserRealmURIPrefix (AuthorityInfo ap) \<noteq> []"
    and "ClientID ap \<noteq> []" and "Scopes ap \<noteq> []"
  shows "TryReadCache m GetMetadataEntry now s ap =
     \<lparr>returned = Inr
        \<lparr>str_AccessToken =
           (case ReadAccessToken m s (HomeaccountID ap) (Aliases md)
                   (UserRealmURIPrefix (AuthorityInfo ap)) (ClientID ap) (Scopes ap) of
              None \<Rightarrow> None
            | Some a \<Rightarrow> if isAccessTokenValid now a then Some a else None),
         str_RefreshToken =
           ReadRefreshToken m s (HomeaccountID ap) (Aliases md)
             (case ReadAppMetadata m s (Aliases md) (ClientID ap) of
                None \<Rightarrow> [] | Some a \<Rightarrow> am_FamilyID a) (ClientID ap),
         str_IDToken =
           ReadIDToken m s (HomeaccountID ap) (Aliases md)
             (UserRealmURIPrefix (AuthorityInfo ap)) (ClientID ap),
         str_Account =
           ReadAccount m s (HomeaccountID ap) (Aliases md)
             (UserRealmURIPrefix (AuthorityInfo ap))\<rparr>,
      calls =
        [ReadAccessTokenCall (HomeaccountID ap) (Aliases md)
           (UserRealmURIPrefix (AuthorityInfo ap)) (ClientID ap) (Scopes ap),
         ReadIDTokenCall (HomeaccountID ap) (Aliases md)
           (UserRealmURIPrefix (AuthorityInfo ap)) (ClientID ap),
         ReadAppMetadataCall (Aliases md) (ClientID ap),
         ReadRefreshTokenCall (HomeaccountID ap) (Aliases md)
           (case ReadAppMetadata m s (Aliases md) (ClientID ap) of
              None \<Rightarrow> [] | Some a \<Rightarrow> am_FamilyID a) (ClientID ap),
         ReadAccountCall (HomeaccountID ap) (Aliases md)
           (UserRealmURIPrefix (AuthorityInfo ap))],
      store = s, params = ap\<rparr>"
  using assms
  by (simp add: TryReadCache_def CreateStorageTokenResponse_def Let_def split: option.splits)

text \<open>
  C3, as amended. \<open>CacheTokenResponse\<close> returns the missing-cache-key error, calls the
  port not at all and leaves the store as it was whenever the home-account id of the
  response, the environment, the realm, the client id or the target is empty.
  \<open>TryReadCache\<close> does so whenever alias resolution succeeds and the home-account id,
  the alias list, the realm, the client id or the scope list is empty; when alias
  resolution fails it returns the resolver's error, again without a port call.
\<close>

theorem missing_key_no_storage_access:
  "(GetMetadataEntry (AuthorityInfo ap) = Inr md \<and>
    (HomeaccountID ap = [] \<or> Aliases md = [] \<or> UserRealmURIPrefix (AuthorityInfo ap) = []
       \<or> ClientID ap = [] \<or> Scopes ap = []) \<longrightarrow>
      returned (TryReadCache m GetMetadataEntry now s ap) = Inl missingKeyRead \<and>
      calls (TryReadCache m GetMetadataEntry now s ap) = [] \<and>
      store (TryReadCache m GetMetadataEntry now s ap) = s)
   \<and> (GetMetadataEntry (AuthorityInfo ap) = Inl e \<longrightarrow>
        returned (TryReadCache m GetMetadataEntry now s ap) = Inl e \<and>
        calls (TryReadCache m GetMetadataEntry now s ap) = [] \<and>
        store (TryReadCache m GetMetadataEntry now s ap) = s)
   \<and> (GetHomeAccountIDFromClientInfo tr = [] \<or> Host (AuthorityInfo ap) = []
         \<or> UserRealmURIPrefix (AuthorityInfo ap) = [] \<or> ClientID ap = []
         \<or> ConcatenateScopes (GrantedScopes tr) = [] \<longrightarrow>
        returned (CacheTokenResponse m now1 now2 s ap tr) = Inl missingKeyWrite \<and>
        calls (CacheTokenResponse m now1 now2 s ap tr) = [] \<and>
        store (CacheTokenResponse m now1 now2 s ap tr) = s)"
proof (intro conjI impI)
  assume h: "GetMetadataEntry (AuthorityInfo ap) = Inr md \<and>
    (HomeaccountID ap = [] \<or> Aliases md = [] \<or> UserRealmURIPrefix (AuthorityInfo ap) = []
       \<or> ClientID ap = [] \<or> Scopes ap = [])"
  then have "TryReadCache m GetMetadataEntry now s ap =
       \<lparr>returned = Inl missingKeyRead, calls = [], store = s, params = ap\<rparr>"
    by (elim conjE) (rule TryReadCache_missing_key)
  then show "returned (TryReadCache m GetMetadataEntry now s ap) = Inl missingKeyRead"
    and "calls (TryReadCache m GetMetadataEntry now s ap) = []"
    and "store (TryReadCache m GetMetadataEntry now s ap) = s"
    by simp_all
next
  assume "GetMetadataEntry (AuthorityInfo ap) = Inl e"
  then have "TryReadCache m GetMetadataEntry now s ap =
       \<lparr>returned = Inl e, calls = [], store = s, params = ap\<rparr>"
    by (rule TryReadCache_resolver_error)
  then show "returned (TryReadCache m GetMetadataEntry now s ap) = Inl e"
    and "calls (TryReadCache m GetMetadataEntry now s ap) = []"
    and "store (TryReadCache m GetMetadataEntry now s ap) = s"
    by simp_all
next
  assume "GetHomeAccountIDFromClientInfo tr = [] \<or> Host (AuthorityInfo ap) = []
         \<or> UserRealmURIPrefix (AuthorityInfo ap) = [] \<or> ClientID ap = []
         \<or> ConcatenateScopes (GrantedScopes tr) = []"
  then have "writeKeyMissing ap tr"
    by (simp add: writeKeyMissing_def)
  then have "CacheTokenResponse m now1 now2 s ap tr =
     \<lparr>returned = Inl missingKeyWrite, calls = [], store = s,
      params = ap\<lparr>HomeaccountID := GetHomeAccountIDFromClientInfo tr\<rparr>\<rparr>"
    by (rule CacheTokenResponse_missing_key)
  then show "returned (CacheTokenResponse m now1 now2 s ap tr) = Inl missingKeyWrite"
    and "calls (CacheTokenResponse m now1 now2 s ap tr) = []"
    and "store (CacheTokenResponse m now1 now2 s ap tr) = s"
    by simp_all
qed

theorem missing_key_no_storage_access_witness:
  "exampleResolver (AuthorityInfo (exampleParams [] ''A'')) =
     Inr \<lparr>Aliases = [''login.contoso.com'', ''login.contoso.net'']\<rparr>
   \<and> HomeaccountID (exampleParams [] ''A'') = []
   \<and> returned (TryReadCache (inMemoryStorage []) exampleResolver 1000 expiredStore
                 (exampleParams [] ''A'')) = Inl missingKeyRead
   \<and> calls (TryReadCache (inMemoryStorage []) exampleResolver 1000 expiredStore
              (exampleParams [] ''A'')) = []
   \<and> GetHomeAccountIDFromClientInfo (exampleResponse [] 5000) = []
   \<and> returned (CacheTokenResponse (inMemoryStorage []) 1000 1000 expiredStore
                 (exampleParams [] ''A'') (exampleResponse [] 5000)) = Inl missingKeyWrite
   \<and> calls (CacheTokenResponse (inMemoryStorage []) 1000 1000 expiredStore
              (exampleParams [] ''A'') (exampleResponse [] 5000)) = []
   \<and> store (CacheTokenResponse (inMemoryStorage []) 1000 1000 expiredStore
              (exampleParams [] ''A'') (exampleResponse [] 5000)) = expiredStore"
proof -
  have r: "exampleResolver (AuthorityInfo (exampleParams [] ''A'')) =
     Inr \<lparr>Aliases = [''login.contoso.com'', ''login.contoso.net'']\<rparr>"
    by (simp add: exampleResolver_def)
  have h: "HomeaccountID (exampleParams [] ''A'') = []"
    by (simp add: exampleParams_def)
  have g: "GetHomeAccountIDFromClientInfo (exampleResponse [] 5000) = []"
    by (simp add: example_defs)
  note t = missing_key_no_storage_access
             [of exampleResolver "exampleParams [] ''A''"
                 "\<lparr>Aliases = [''login.contoso.com'', ''login.contoso.net'']\<rparr>"
                 "inMemoryStorage []" 1000 expiredStore
                 "CollaboratorError []" "exampleResponse [] 5000" 1000 1000]
  from t r h have "returned (TryReadCache (inMemoryStorage []) exampleResolver 1000 expiredStore
                 (exampleParams [] ''A'')) = Inl missingKeyRead
     \<and> calls (TryReadCache (inMemoryStorage []) exampleResolver 1000 expiredStore
              (exampleParams [] ''A'')) = []"
    by blast
  moreover from t g have "returned (CacheTokenResponse (inMemoryStorage []) 1000 1000
        expiredStore (exampleParams [] ''A'') (exampleResponse [] 5000)) = Inl missingKeyWrite
     \<and> calls (CacheTokenResponse (inMemoryStorage []) 1000 1000 expiredStore
              (exampleParams [] ''A'') (exampleResponse [] 5000)) = []
     \<and> store (CacheTokenResponse (inMemoryStorage []) 1000 1000 expiredStore
              (exampleParams [] ''A'') (exampleResponse [] 5000)) = expiredStore"
    by blast
  ultimately show ?thesis
    using r h g by blast
qed

text \<open>
  The claim as stated fails where alias resolution fails: with an empty home-account id
  the call returns the resolver's error, not the missing-cache-key error.
\<close>

theorem TryReadCache_resolver_error_before_key_check:
  "HomeaccountID (exampleParams [] ''A'') = []
   \<and> returned (TryReadCache (inMemoryStorage []) failingResolver 1000 expiredStore
                 (exampleParams [] ''A'')) = Inl (CollaboratorError ''instance discovery failed'')
   \<and> returned (TryReadCache (inMemoryStorage []) failingResolver 1000 expiredStore
                 (exampleParams [] ''A'')) \<noteq> Inl missingKeyRead"
  by (simp add: TryReadCache_def failingResolver_def exampleParams_def missingKeyRead_def)

lemma TryReadCache_error_iff:
  "(\<exists>e. returned (TryReadCache m GetMetadataEntry now s ap) = Inl e) \<longleftrightarrow>
     (\<exists>e. GetMetadataEntry (AuthorityInfo ap) = Inl e) \<or>
     (\<exists>md. GetMetadataEntry (AuthorityInfo ap) = Inr md \<and>
           (HomeaccountID ap = [] \<or> Aliases md = [] \<or> UserRealmURIPrefix (AuthorityInfo ap) = []
            \<or> ClientID ap = [] \<or> Scopes ap = []))"
proof (cases "GetMetadataEntry (AuthorityInfo ap)")
  case (Inl e)
  then show ?thesis
    by (simp add: TryReadCache_resolver_error)
next
  case (Inr md)
  show ?thesis
  proof (cases "HomeaccountID ap = [] \<or> Aliases md = [] \<or>
                UserRealmURIPrefix (AuthorityInfo ap) = [] \<or> ClientID ap = [] \<or> Scopes ap = []")
    case True
    with Inr show ?thesis
      by (simp add: TryReadCache_missing_key)
  next
    case False
    with Inr show ?thesis
      by (simp add: TryReadCache_reads)
  qed
qed

lemma port_without_access_token [simp]:
  "ReadRefreshToken (m\<lparr>ReadAccessToken := f\<rparr>) = ReadRefreshToken m"
  "ReadIDToken (m\<lparr>ReadAccessToken := f\<rparr>) = ReadIDToken m"
  "ReadAccount (m\<lparr>ReadAccessToken := f\<rparr>) = ReadAccount m"
  "ReadAppMetadata (m\<lparr>ReadAccessToken := f\<rparr>) = ReadAppMetadata m"
  by simp_all

text \<open>
  C8. \<open>TryReadCache\<close> returns an error exactly when alias resolution fails or one of
  the five keys is empty. Otherwise it returns the four entities as the port's reads
  gave them, each possibly absent, except that an access token the validity evaluator
  rejects is dropped; with such a token the call returns what it returns on a port whose
  access token read finds nothing.
\<close>

theorem TryReadCache_absent_entities_not_fatal:
  "((\<exists>e. returned (TryReadCache m GetMetadataEntry now s ap) = Inl e) \<longleftrightarrow>
      (\<exists>e. GetMetadataEntry (AuthorityInfo ap) = Inl e) \<or>
      (\<exists>md. GetMetadataEntry (AuthorityInfo ap) = Inr md \<and>
            (HomeaccountID ap = [] \<or> Aliases md = [] \<or>
             UserRealmURIPrefix (AuthorityInfo ap) = [] \<or> ClientID ap = [] \<or> Scopes ap = [])))
   \<and> (GetMetadataEntry (AuthorityInfo ap) = Inr md \<and> HomeaccountID ap \<noteq> [] \<and>
       Aliases md \<noteq> [] \<and> UserRealmURIPrefix (AuthorityInfo ap) \<noteq> [] \<and> ClientID ap \<noteq> [] \<and>
       Scopes ap \<noteq> [] \<longrightarrow>
        returned (TryReadCache m GetMetadataEntry now s ap) =
          Inr \<lparr>str_AccessToken =
                 (case ReadAccessToken m s (HomeaccountID ap) (Aliases md)
                         (UserRealmURIPrefix (AuthorityInfo ap)) (ClientID ap) (Scopes ap) of
                    None \<Rightarrow> None
                  | Some a \<Rightarrow> if isAccessTokenValid now a then Some a else None),
               str_RefreshToken =
                 ReadRefreshToken m s (HomeaccountID ap) (Aliases md)
                   (case ReadAppMetadata m s (Aliases md) (ClientID ap) of
                      None \<Rightarrow> [] | Some a \<Rightarrow> am_FamilyID a) (ClientID ap),
               str_IDToken =
                 ReadIDToken m s (HomeaccountID ap) (Aliases md)
                   (UserRealmURIPrefix (AuthorityInfo ap)) (ClientID ap),
               str_Account =
                 ReadAccount m s (HomeaccountID ap) (Aliases md)
                   (UserRealmURIPrefix (AuthorityInfo ap))\<rparr>)
   \<and> (GetMetadataEntry (AuthorityInfo ap) = Inr md \<and>
       ReadAccessToken m s (HomeaccountID ap) (Aliases md)
         (UserRealmURIPrefix (AuthorityInfo ap)) (ClientID ap) (Scopes ap) = Some a \<and>
       \<not> isAccessTokenValid now a \<longrightarrow>
        returned (TryReadCache m GetMetadataEntry now s ap) =
        returned (TryReadCache (m\<lparr>ReadAccessToken := \<lambda>s h als r c scopes. None\<rparr>)
                    GetMetadataEntry now s ap))"
proof (intro conjI impI)
  show "(\<exists>e. returned (TryReadCache m GetMetadataEntry now s ap) = Inl e) \<longleftrightarrow>
      (\<exists>e. GetMetadataEntry (AuthorityInfo ap) = Inl e) \<or>
      (\<exists>md. GetMetadataEntry (AuthorityInfo ap) = Inr md \<and>
            (HomeaccountID ap = [] \<or> Aliases md = [] \<or>
             UserRealmURIPrefix (AuthorityInfo ap) = [] \<or> ClientID ap = [] \<or> Scopes ap = []))"
    by (rule TryReadCache_error_iff)
next
  assume "GetMetadataEntry (AuthorityInfo ap) = Inr md \<and> HomeaccountID ap \<noteq> [] \<and>
       Aliases md \<noteq> [] \<and> UserRealmURIPrefix (AuthorityInfo ap) \<noteq> [] \<and> ClientID ap \<noteq> [] \<and>
       Scopes ap \<noteq> []"
  then show "returned (TryReadCache m GetMetadataEntry now s ap) =
          Inr \<lparr>str_AccessToken =
                 (case ReadAccessToken m s (HomeaccountID ap) (Aliases md)
                         (UserRealmURIPrefix (AuthorityInfo ap)) (ClientID ap) (Scopes ap) of
                    None \<Rightarrow> None
                  | Some a \<Rightarrow> if isAccessTokenValid now a then Some a else None),
               str_RefreshToken =
                 ReadRefreshToken m s (HomeaccountID ap) (Aliases md)
                   (case ReadAppMetadata m s (Aliases md) (ClientID ap) of
                      None \<Rightarrow> [] | Some a \<Rightarrow> am_FamilyID a) (ClientID ap),
               str_IDToken =
                 ReadIDToken m s (HomeaccountID ap) (Aliases md)
                   (UserRealmURIPrefix (AuthorityInfo ap)) (ClientID ap),
               str_Account =
                 ReadAccount m s (HomeaccountID ap) (Aliases md)
                   (UserRealmURIPrefix (AuthorityInfo ap))\<rparr>"
    by (simp add: TryReadCache_reads)
next
  assume h: "GetMetadataEntry (AuthorityInfo ap) = Inr md \<and>
       ReadAccessToken m s (HomeaccountID ap) (Aliases md)
         (UserRealmURIPrefix (AuthorityInfo ap)) (ClientID ap) (Scopes ap) = Some a \<and>
       \<not> isAccessTokenValid now a"
  show "returned (TryReadCache m GetMetadataEntry now s ap) =
        returned (TryReadCache (m\<lparr>ReadAccessToken := \<lambda>s h als r c scopes. None\<rparr>)
                    GetMetadataEntry now s ap)"
  proof (cases "HomeaccountID ap = [] \<or> Aliases md = [] \<or>
                UserRealmURIPrefix (AuthorityInfo ap) = [] \<or> ClientID ap = [] \<or> Scopes ap = []")
    case True
    with h show ?thesis
      by (simp add: TryReadCache_missing_key)
  next
    case False
    with h show ?thesis
      by (simp add: TryReadCache_reads)
  qed
qed

lemma run_read_expired:
  "TryReadCache (inMemoryStorage []) exampleResolver 1000 expiredStore
     (exampleParams ''uid.utid'' ''A'') =
   \<lparr>returned = Inr \<lparr>str_AccessToken = None, str_RefreshToken = None, str_IDToken = None,
                    str_Account = None\<rparr>,
    calls =
      [ReadAccessTokenCall ''uid.utid'' [''login.contoso.com'', ''login.contoso.net'']
         ''tenant'' ''A'' [''user.read''],
       ReadIDTokenCall ''uid.utid'' [''login.contoso.com'', ''login.contoso.net''] ''tenant'' ''A'',
       ReadAppMetadataCall [''login.contoso.com'', ''login.contoso.net''] ''A'',
       ReadRefreshTokenCall ''uid.utid'' [''login.contoso.com'', ''login.contoso.net''] [] ''A'',
       ReadAccountCall ''uid.utid'' [''login.contoso.com'', ''login.contoso.net''] ''tenant''],
    store = expiredStore, params = exampleParams ''uid.utid'' ''A''\<rparr>"
proof -
  have "\<not> isAccessTokenValid 1000 (exampleAccessToken ''1000'' ''1300'')"
    by (simp add: isAccessTokenValid_def exampleAccessToken_def ParseInt_1000 ParseInt_1300)
  then show ?thesis
    by (simp add: TryReadCache_def Let_def exampleResolver_def example_defs expiredStore_def
          inMemoryStorage_reads CreateStorageTokenResponse_def exampleAccessToken_def)
qed

theorem TryReadCache_absent_entities_not_fatal_witness:
  "exampleResolver (AuthorityInfo (exampleParams ''uid.utid'' ''A'')) =
     Inr \<lparr>Aliases = [''login.contoso.com'', ''login.contoso.net'']\<rparr>
   \<and> ReadAccessToken (inMemoryStorage []) expiredStore ''uid.utid''
        [''login.contoso.com'', ''login.contoso.net''] ''tenant'' ''A'' [''user.read''] =
      Some (exampleAccessToken ''1000'' ''1300'')
   \<and> \<not> isAccessTokenValid 1000 (exampleAccessToken ''1000'' ''1300'')
   \<and> returned (TryReadCache (inMemoryStorage []) exampleResolver 1000 expiredStore
                 (exampleParams ''uid.utid'' ''A'')) =
      Inr \<lparr>str_AccessToken = None, str_RefreshToken = None, str_IDToken = None,
           str_Account = None\<rparr>"
proof -
  let ?ap = "exampleParams ''uid.utid'' ''A''"
  let ?md = "\<lparr>Aliases = [''login.contoso.com'', ''login.contoso.net'']\<rparr>"
  have r: "exampleResolver (AuthorityInfo ?ap) = Inr ?md"
    by (simp add: exampleResolver_def)
  have k: "HomeaccountID ?ap \<noteq> [] \<and> Aliases ?md \<noteq> [] \<and>
           UserRealmURIPrefix (AuthorityInfo ?ap) \<noteq> [] \<and> ClientID ?ap \<noteq> [] \<and> Scopes ?ap \<noteq> []"
    by (simp add: example_defs)
  have f: "ReadAccessToken (inMemoryStorage []) expiredStore ''uid.utid''
        [''login.contoso.com'', ''login.contoso.net''] ''tenant'' ''A'' [''user.read''] =
      Some (exampleAccessToken ''1000'' ''1300'')"
    by (simp add: inMemoryStorage_reads expiredStore_def emptyStore_def exampleAccessToken_def)
  have v: "\<not> isAccessTokenValid 1000 (exampleAccessToken ''1000'' ''1300'')"
    by (simp add: isAccessTokenValid_def exampleAccessToken_def ParseInt_1000 ParseInt_1300)
  note t = TryReadCache_absent_entities_not_fatal
             [of "inMemoryStorage []" exampleResolver 1000 expiredStore ?ap ?md
                 "exampleAccessToken ''1000'' ''1300''"]
  from t r k have "returned (TryReadCache (inMemoryStorage []) exampleResolver 1000
                     expiredStore ?ap) =
          Inr \<lparr>str_AccessToken =
                 (case ReadAccessToken (inMemoryStorage []) expiredStore (HomeaccountID ?ap)
                         (Aliases ?md) (UserRealmURIPrefix (AuthorityInfo ?ap)) (ClientID ?ap)
                         (Scopes ?ap) of
                    None \<Rightarrow> None
                  | Some a \<Rightarrow> if isAccessTokenValid 1000 a then Some a else None),
               str_RefreshToken =
                 ReadRefreshToken (inMemoryStorage []) expiredStore (HomeaccountID ?ap)
                   (Aliases ?md)
                   (case ReadAppMetadata (inMemoryStorage []) expiredStore (Aliases ?md)
                           (ClientID ?ap) of
                      None \<Rightarrow> [] | Some a \<Rightarrow> am_FamilyID a) (ClientID ?ap),
               str_IDToken =
                 ReadIDToken (inMemoryStorage []) expiredStore (HomeaccountID ?ap) (Aliases ?md)
                   (UserRealmURIPrefix (AuthorityInfo ?ap)) (ClientID ?ap),
               str_Account =
                 ReadAccount (inMemoryStorage []) expiredStore (HomeaccountID ?ap) (Aliases ?md)
                   (UserRealmURIPrefix (AuthorityInfo ?ap))\<rparr>"
    by blast
  then have "returned (TryReadCache (inMemoryStorage []) exampleResolver 1000 expiredStore ?ap) =
      Inr \<lparr>str_AccessToken = None, str_RefreshToken = None, str_IDToken = None,
           str_Account = None\<rparr>"
    using v
    by (simp add: example_defs inMemoryStorage_reads expiredStore_def exampleAccessToken_def)
  with r f v show ?thesis
    by simp
qed

section \<open>Family refresh tokens\<close>

text \<open>
  Client \<open>B\<close> persists a response of family \<open>F\<close> on the store that maps client \<open>A\<close>
  to family \<open>F\<close>.
\<close>

lemma run_family_write:
  "store (CacheTokenResponse (inMemoryStorage []) 1000 1000 familyStore
            (exampleParams [] ''B'') (exampleResponse ''uid.utid'' 5000)) =
   \<lparr>accessTokens =
      [accessTokenOf 1000 (exampleParams [] ''B'') (exampleResponse ''uid.utid'' 5000)],
    refreshTokens =
      [CreateRefreshTokenCacheItem ''uid.utid'' ''login.contoso.com'' ''B'' ''rt-secret'' ''F''],
    idTokens = [idTokenOf (exampleParams [] ''B'') (exampleResponse ''uid.utid'' 5000)],
    accounts = [accountOf (exampleParams [] ''B'') (exampleResponse ''uid.utid'' 5000)],
    appMetadatas =
      [CreateAppMetadata ''F'' ''B'' ''login.contoso.com'',
       CreateAppMetadata ''F'' ''A'' ''login.contoso.com'']\<rparr>"
  by (simp add: CacheTokenResponse_def Let_def step_defs example_defs inMemoryStorage_writes
        memWrite_def accountOf_def accessTokenOf_def idTokenOf_def familyStore_def
        valid_1000_5000)

text \<open>
  C4. When alias resolution succeeds and the keys are present, \<open>TryReadCache\<close> reads
  the app metadata of (aliases, client id) and then reads the refresh token with the
  family id of that app metadata, or with the empty family id when there is none; the
  refresh token it returns is the result of that read.
\<close>

theorem TryReadCache_refresh_token_by_family:
  "GetMetadataEntry (AuthorityInfo ap) = Inr md \<and> HomeaccountID ap \<noteq> [] \<and>
   Aliases md \<noteq> [] \<and> UserRealmURIPrefix (AuthorityInfo ap) \<noteq> [] \<and> ClientID ap \<noteq> [] \<and>
   Scopes ap \<noteq> [] \<longrightarrow>
     drop 2 (calls (TryReadCache m GetMetadataEntry now s ap)) =
       [ReadAppMetadataCall (Aliases md) (ClientID ap),
        ReadRefreshTokenCall (HomeaccountID ap) (Aliases md)
          (case ReadAppMetadata m s (Aliases md) (ClientID ap) of
             None \<Rightarrow> [] | Some a \<Rightarrow> am_FamilyID a) (ClientID ap),
        ReadAccountCall (HomeaccountID ap) (Aliases md) (UserRealmURIPrefix (AuthorityInfo ap))]
     \<and> (\<exists>r. returned (TryReadCache m GetMetadataEntry now s ap) = Inr r \<and>
             str_RefreshToken r =
               ReadRefreshToken m s (HomeaccountID ap) (Aliases md)
                 (case ReadAppMetadata m s (Aliases md) (ClientID ap) of
                    None \<Rightarrow> [] | Some a \<Rightarrow> am_FamilyID a) (ClientID ap))"
  by (simp add: TryReadCache_reads)

theorem TryReadCache_refresh_token_by_family_witness:
  "rt_ClientID (CreateRefreshTokenCacheItem ''uid.utid'' ''login.contoso.com'' ''B''
                  ''rt-secret'' ''F'') = ''B''
   \<and> ClientID (exampleParams ''uid.utid'' ''A'') = ''A''
   \<and> (\<exists>r. returned
             (TryReadCache (inMemoryStorage []) exampleResolver 1000
                (store (CacheTokenResponse (inMemoryStorage []) 1000 1000 familyStore
                          (exampleParams [] ''B'') (exampleResponse ''uid.utid'' 5000)))
                (exampleParams ''uid.utid'' ''A'')) = Inr r
          \<and> str_RefreshToken r =
              Some (CreateRefreshTokenCacheItem ''uid.utid'' ''login.contoso.com'' ''B''
                      ''rt-secret'' ''F''))"
proof -
  let ?ap = "exampleParams ''uid.utid'' ''A''"
  let ?md = "\<lparr>Aliases = [''login.contoso.com'', ''login.contoso.net'']\<rparr>"
  let ?s = "store (CacheTokenResponse (inMemoryStorage []) 1000 1000 familyStore
                     (exampleParams [] ''B'') (exampleResponse ''uid.utid'' 5000))"
  have r: "exampleResolver (AuthorityInfo ?ap) = Inr ?md"
    by (simp add: exampleResolver_def)
  have k: "HomeaccountID ?ap \<noteq> [] \<and> Aliases ?md \<noteq> [] \<and>
           UserRealmURIPrefix (AuthorityInfo ?ap) \<noteq> [] \<and> ClientID ?ap \<noteq> [] \<and> Scopes ?ap \<noteq> []"
    by (simp add: example_defs)
  have a: "(case ReadAppMetadata (inMemoryStorage []) ?s (Aliases ?md) (ClientID ?ap) of
              None \<Rightarrow> [] | Some a \<Rightarrow> am_FamilyID a) = ''F''"
    unfolding run_family_write
    by (simp add: inMemoryStorage_reads example_defs)
  have b: "ReadRefreshToken (inMemoryStorage []) ?s (HomeaccountID ?ap) (Aliases ?md) ''F''
             (ClientID ?ap) =
           Some (CreateRefreshTokenCacheItem ''uid.utid'' ''login.contoso.com'' ''B''
                   ''rt-secret'' ''F'')"
    unfolding run_family_write
    by (simp add: inMemoryStorage_reads example_defs)
  note t = TryReadCache_refresh_token_by_family
             [of exampleResolver ?ap ?md "inMemoryStorage []" 1000 ?s]
  from t r k have "\<exists>r. returned (TryReadCache (inMemoryStorage []) exampleResolver 1000 ?s ?ap) =
                         Inr r \<and>
             str_RefreshToken r =
               ReadRefreshToken (inMemoryStorage []) ?s (HomeaccountID ?ap) (Aliases ?md)
                 (case ReadAppMetadata (inMemoryStorage []) ?s (Aliases ?md) (ClientID ?ap) of
                    None \<Rightarrow> [] | Some a \<Rightarrow> am_FamilyID a) (ClientID ?ap)"
    by blast
  then have "\<exists>r. returned (TryReadCache (inMemoryStorage []) exampleResolver 1000 ?s ?ap) =
                   Inr r \<and>
             str_RefreshToken r =
               Some (CreateRefreshTokenCacheItem ''uid.utid'' ''login.contoso.com'' ''B''
                       ''rt-secret'' ''F'')"
    unfolding a b .
  then show ?thesis
    by (simp add: example_defs)
qed

end
